theory Spec2Isabelle
  imports Complex_Main
begin

section \<open>Exceptions\<close>

text \<open>
  The Python exceptions that the modelled functions of
  \<^verbatim>\<open>bcdi/preprocessing/preprocessing_utils.py\<close> can raise, either through an explicit
  \<^verbatim>\<open>raise\<close>/\<^verbatim>\<open>assert\<close> or through an operation of the interpreter or of numpy
  (indexing out of range, unpacking, a shape that cannot be broadcast).  A \<^verbatim>\<open>ValueError\<close>
  and an \<^verbatim>\<open>Exception\<close> carry a short tag that identifies the raising statement.
\<close>

datatype error =
    ValueError string
  | AssertionError
  | IndexError
  | ZeroDivisionError
  | TypeError
  | OverflowError
  | Exception string

section \<open>Number-shaping utilities\<close>

subsection \<open>\<^verbatim>\<open>primes\<close>: trial division\<close>

text \<open>
  \<^verbatim>\<open>
  list_primes = [1]
  assert (number > 0)
  i = 2
  while i * i <= number:
      while number % i == 0:
          list_primes.append(i)
          number //= i
      i += 1
  if number > 1:
      list_primes.append(number)
  return list_primes
  \<close>
  The inner loop and the outer loop are one recursive function each.  The inner loop is
  run by the source only with \<open>1 < i\<close> and \<open>0 < number\<close> (the assertion, and \<open>i\<close> starting
  at 2); these two conjuncts of the guard make the HOL function total outside that range,
  where the Python loop would not stop.  Python's \<^verbatim>\<open>%\<close> and \<^verbatim>\<open>//\<close> on integers are
  \<open>mod\<close> and \<open>div\<close> (both round towards minus infinity).
\<close>

function primes_inner :: "int \<Rightarrow> int \<Rightarrow> int list \<Rightarrow> int \<times> int list" where
  "primes_inner i number list_primes =
     (if 1 < i \<and> 0 < number \<and> number mod i = 0
      then primes_inner i (number div i) (list_primes @ [i])
      else (number, list_primes))"
  by pat_completeness auto
termination
  by (relation "measure (\<lambda>(i, number, list_primes). nat number)")
     (auto simp: zdiv_mono2_neg intro: int_div_less_self)

declare primes_inner.simps [simp del]

lemma div_pos_of_dvd:
  "1 < i \<Longrightarrow> 0 < number \<Longrightarrow> number mod i = 0 \<Longrightarrow> 0 < number div (i::int)"
  by (metis int_one_le_iff_zero_less leI mod_eq_self_iff_div_eq_0
      order_less_imp_le pos_imp_zdiv_pos_iff zdiv_eq_0_iff)

lemma primes_inner_le: "fst (primes_inner i number list_primes) \<le> number"
proof (induction i number list_primes rule: primes_inner.induct)
  case (1 i number list_primes)
  show ?case
  proof (cases "1 < i \<and> 0 < number \<and> number mod i = 0")
    case True
    then have "number div i < number" by (simp add: int_div_less_self)
    then show ?thesis using 1 True by (subst primes_inner.simps) auto
  next
    case False
    then show ?thesis by (subst primes_inner.simps) auto
  qed
qed

lemma int_le_square: "(i::int) \<le> i * i"
proof (cases "0 \<le> i")
  case True
  then show ?thesis by (cases "i = 0") (auto simp: mult_le_cancel_left1)
next
  case False
  then have "0 \<le> i * i" by simp
  with False show ?thesis by linarith
qed

function primes_outer :: "int \<Rightarrow> int \<Rightarrow> int list \<Rightarrow> int list" where
  "primes_outer i number list_primes =
     (if i * i \<le> number
      then (case primes_inner i number list_primes of
              (number', list_primes') \<Rightarrow> primes_outer (i + 1) number' list_primes')
      else if number > 1 then list_primes @ [number] else list_primes)"
  by pat_completeness auto
termination
proof (relation "measure (\<lambda>(i, number, list_primes). nat (number + 1 - i))", goal_cases)
  case 1
  show ?case by simp
next
  case (2 i number list_primes x y)
  have "x \<le> number"
    using primes_inner_le[of i number list_primes] 2(2)[symmetric] by simp
  moreover have "i \<le> number" using int_le_square[of i] 2(1) by linarith
  ultimately show ?case by simp
qed

declare primes_outer.simps [simp del]

text \<open>
  The argument is typed \<open>int\<close>, so the \<^verbatim>\<open>isinstance(number, int)\<close> test of the source
  succeeds; the assertion \<^verbatim>\<open>number > 0\<close> is the only failure.
\<close>

definition primes :: "int \<Rightarrow> error + int list" where
  "primes number =
     (if \<not> 0 < number then Inl AssertionError
      else Inr (primes_outer 2 number [1]))"

subsection \<open>\<^verbatim>\<open>try_smaller_primes\<close>: the FFT size constraint\<close>

text \<open>
  \<^verbatim>\<open>
  p = primes(number)
  if max(p) > maxprime:
      return False
  if required_dividers is not None:
      for k in required_dividers:
          if number % k != 0:
              return False
  return True
  \<close>
  \<^verbatim>\<open>number % k\<close> raises \<^verbatim>\<open>ZeroDivisionError\<close> for \<open>k = 0\<close>.  The list \<open>p\<close> is never empty
  (it starts with 1), so \<^verbatim>\<open>max(p)\<close> is defined.
\<close>

fun check_dividers :: "int \<Rightarrow> int list \<Rightarrow> error + bool" where
  "check_dividers number [] = Inr True"
| "check_dividers number (k # ks) =
     (if k = 0 then Inl ZeroDivisionError
      else if number mod k \<noteq> 0 then Inr False
      else check_dividers number ks)"

definition try_smaller_primes :: "int \<Rightarrow> int \<Rightarrow> int list option \<Rightarrow> error + bool" where
  "try_smaller_primes number maxprime required_dividers =
     (case primes number of
        Inl e \<Rightarrow> Inl e
      | Inr p \<Rightarrow>
          if Max (set p) > maxprime then Inr False
          else (case required_dividers of
                  None \<Rightarrow> Inr True
                | Some ks \<Rightarrow> check_dividers number ks))"

subsection \<open>\<^verbatim>\<open>smaller_primes\<close> and \<^verbatim>\<open>higher_primes\<close>: the nearest admissible size\<close>

text \<open>
  Both functions accept an integer or a list, tuple or numpy array of integers (the
  \<^verbatim>\<open>type(number) is list\<close> \<dots> test); \<open>pyval\<close> keeps the kind of container.  The elements
  are Python integers, for which the \<^verbatim>\<open>isinstance\<close> test of \<^verbatim>\<open>primes\<close> succeeds.
\<close>

datatype pyval = PyInt int | PyList "int list" | PyTuple "int list" | NdArray "int list"

text \<open>
  How a \<^verbatim>\<open>while\<close> loop with a \<^verbatim>\<open>return\<close> in its body ends: the loop condition fails and
  control goes on after the loop with the loop variable (\<open>Exited\<close>), or the \<^verbatim>\<open>return\<close>
  statement leaves the whole function with a value (\<open>Returned\<close>).
\<close>

datatype ('a, 'r) flow = Exited 'a | Returned 'r

text \<open>
  \<^verbatim>\<open>
  while try_smaller_primes(number, maxprime=maxprime, required_dividers=required_dividers) is False:
      number = number - 1
      if number == 0:
          return 0
  \<close>
\<close>

function smaller_loop :: "int \<Rightarrow> int \<Rightarrow> int list option \<Rightarrow> error + (int, int) flow" where
  "smaller_loop number maxprime required_dividers =
     (case try_smaller_primes number maxprime required_dividers of
        Inl e \<Rightarrow> Inl e
      | Inr b \<Rightarrow>
          if b = False
          then (if number - 1 = 0 then Inr (Returned 0)
                else smaller_loop (number - 1) maxprime required_dividers)
          else Inr (Exited number))"
  by pat_completeness auto
termination
proof (relation "measure (\<lambda>(number, maxprime, required_dividers). nat number)", goal_cases)
  case 1
  show ?case by simp
next
  case (2 number maxprime required_dividers b)
  then have "0 < number"
    by (auto simp: try_smaller_primes_def primes_def split: if_splits)
  then show ?case by simp
qed

declare smaller_loop.simps [simp del]

text \<open>
  The \<^verbatim>\<open>for i in number\<close> loop of the sequence branch: each element is asserted, searched
  downwards and appended to \<^verbatim>\<open>vn\<close>; a \<^verbatim>\<open>return 0\<close> inside the search leaves the function.
\<close>

fun smaller_seq ::
  "int list \<Rightarrow> int \<Rightarrow> int list option \<Rightarrow> int list \<Rightarrow> error + (int list, int) flow" where
  "smaller_seq [] maxprime required_dividers vn = Inr (Exited vn)"
| "smaller_seq (i # rest) maxprime required_dividers vn =
     (if \<not> (i > 1 \<and> maxprime \<le> i) then Inl AssertionError
      else (case smaller_loop i maxprime required_dividers of
              Inl e \<Rightarrow> Inl e
            | Inr (Returned z) \<Rightarrow> Inr (Returned z)
            | Inr (Exited i') \<Rightarrow> smaller_seq rest maxprime required_dividers (vn @ [i'])))"

text \<open>
  The sequence branch returns \<^verbatim>\<open>np.array(vn)\<close> for an array and the list \<^verbatim>\<open>vn\<close> otherwise.
\<close>

definition smaller_primes :: "pyval \<Rightarrow> int \<Rightarrow> int list option \<Rightarrow> error + pyval" where
  "smaller_primes number maxprime required_dividers =
     (case number of
        PyList xs \<Rightarrow>
          (case smaller_seq xs maxprime required_dividers [] of
             Inl e \<Rightarrow> Inl e
           | Inr (Returned z) \<Rightarrow> Inr (PyInt z)
           | Inr (Exited vn) \<Rightarrow> Inr (PyList vn))
      | PyTuple xs \<Rightarrow>
          (case smaller_seq xs maxprime required_dividers [] of
             Inl e \<Rightarrow> Inl e
           | Inr (Returned z) \<Rightarrow> Inr (PyInt z)
           | Inr (Exited vn) \<Rightarrow> Inr (PyList vn))
      | NdArray xs \<Rightarrow>
          (case smaller_seq xs maxprime required_dividers [] of
             Inl e \<Rightarrow> Inl e
           | Inr (Returned z) \<Rightarrow> Inr (PyInt z)
           | Inr (Exited vn) \<Rightarrow> Inr (NdArray vn))
      | PyInt n \<Rightarrow>
          (if \<not> (n > 1 \<and> maxprime \<le> n) then Inl AssertionError
           else (case smaller_loop n maxprime required_dividers of
                   Inl e \<Rightarrow> Inl e
                 | Inr (Returned z) \<Rightarrow> Inr (PyInt z)
                 | Inr (Exited m) \<Rightarrow> Inr (PyInt m))))"

text \<open>
  \<^verbatim>\<open>
  limit = number
  while try_smaller_primes(number, maxprime=maxprime, required_dividers=required_dividers) is False:
      number = number + 1
      if number == limit:
          return limit
  \<close>
  Python integers do not wrap around, so the search may go on for ever: the loop is a
  partial function, \<open>None\<close> standing for a call that does not return.
\<close>

partial_function (option) higher_loop ::
  "int \<Rightarrow> int \<Rightarrow> int list option \<Rightarrow> int \<Rightarrow> (error + (int, int) flow) option" where
  "higher_loop limit maxprime required_dividers number =
     (case try_smaller_primes number maxprime required_dividers of
        Inl e \<Rightarrow> Some (Inl e)
      | Inr b \<Rightarrow>
          if b = False
          then (if number + 1 = limit then Some (Inr (Returned limit))
                else higher_loop limit maxprime required_dividers (number + 1))
          else Some (Inr (Exited number)))"

fun higher_seq ::
  "int list \<Rightarrow> int \<Rightarrow> int list option \<Rightarrow> int list \<Rightarrow> (error + (int list, int) flow) option" where
  "higher_seq [] maxprime required_dividers vn = Some (Inr (Exited vn))"
| "higher_seq (i # rest) maxprime required_dividers vn =
     (if \<not> (i > 1 \<and> maxprime \<le> i) then Some (Inl AssertionError)
      else (case higher_loop i maxprime required_dividers i of
              None \<Rightarrow> None
            | Some (Inl e) \<Rightarrow> Some (Inl e)
            | Some (Inr (Returned l)) \<Rightarrow> Some (Inr (Returned l))
            | Some (Inr (Exited i')) \<Rightarrow> higher_seq rest maxprime required_dividers (vn @ [i'])))"

definition higher_primes :: "pyval \<Rightarrow> int \<Rightarrow> int list option \<Rightarrow> (error + pyval) option" where
  "higher_primes number maxprime required_dividers =
     (case number of
        PyList xs \<Rightarrow>
          (case higher_seq xs maxprime required_dividers [] of
             None \<Rightarrow> None
           | Some (Inl e) \<Rightarrow> Some (Inl e)
           | Some (Inr (Returned l)) \<Rightarrow> Some (Inr (PyInt l))
           | Some (Inr (Exited vn)) \<Rightarrow> Some (Inr (PyList vn)))
      | PyTuple xs \<Rightarrow>
          (case higher_seq xs maxprime required_dividers [] of
             None \<Rightarrow> None
           | Some (Inl e) \<Rightarrow> Some (Inl e)
           | Some (Inr (Returned l)) \<Rightarrow> Some (Inr (PyInt l))
           | Some (Inr (Exited vn)) \<Rightarrow> Some (Inr (PyList vn)))
      | NdArray xs \<Rightarrow>
          (case higher_seq xs maxprime required_dividers [] of
             None \<Rightarrow> None
           | Some (Inl e) \<Rightarrow> Some (Inl e)
           | Some (Inr (Returned l)) \<Rightarrow> Some (Inr (PyInt l))
           | Some (Inr (Exited vn)) \<Rightarrow> Some (Inr (NdArray vn)))
      | PyInt n \<Rightarrow>
          (if \<not> (n > 1 \<and> maxprime \<le> n) then Some (Inl AssertionError)
           else (case higher_loop n maxprime required_dividers n of
                   None \<Rightarrow> None
                 | Some (Inl e) \<Rightarrow> Some (Inl e)
                 | Some (Inr (Returned l)) \<Rightarrow> Some (Inr (PyInt l))
                 | Some (Inr (Exited m)) \<Rightarrow> Some (Inr (PyInt m)))))"


subsection \<open>Primality, for stating what \<^verbatim>\<open>primes\<close> computes\<close>

definition is_prime :: "int \<Rightarrow> bool" where
  "is_prime p \<longleftrightarrow> 1 < p \<and> list_all (\<lambda>d. \<not> d dvd p) [2..p - 1]"

definition no_divisor_below :: "int \<Rightarrow> int \<Rightarrow> bool" where
  "no_divisor_below i n \<longleftrightarrow> (\<forall>d. 2 \<le> d \<and> d < i \<longrightarrow> \<not> d dvd n)"


section \<open>Arrays, indices and slices\<close>

text \<open>
  A numpy array is its shape and its elements, read by a multi-index; an element outside
  the shape is never read by the functions below.  One-dimensional arrays (the frame
  flags, the monitor, the q axes) are lists.
\<close>

record 'a ndarray =
  shape :: "nat list"
  getitem :: "nat list \<Rightarrow> 'a"

definition full :: "nat list \<Rightarrow> 'a \<Rightarrow> 'a ndarray" where
  "full sh c = \<lparr>shape = sh, getitem = (\<lambda>idx. c)\<rparr>"

text \<open>All the multi-indices of a shape, in C order (the last axis runs fastest).\<close>

fun indices :: "nat list \<Rightarrow> nat list list" where
  "indices [] = [[]]"
| "indices (n # ns) = concat (map (\<lambda>i. map ((#) i) (indices ns)) [0..<n])"


text \<open>
  Python's \<^verbatim>\<open>xs[i]\<close>: a negative index counts from the end, an index outside
  \<open>-n \<le> i < n\<close> raises \<^verbatim>\<open>IndexError\<close>.
\<close>

definition index_ok :: "nat \<Rightarrow> int \<Rightarrow> bool" where
  "index_ok n i \<longleftrightarrow> - int n \<le> i \<and> i < int n"

definition py_getitem :: "'a list \<Rightarrow> int \<Rightarrow> error + 'a" where
  "py_getitem xs i =
     (let n = int (length xs); j = (if i < 0 then i + n else i)
      in if 0 \<le> j \<and> j < n then Inr (xs ! nat j) else Inl IndexError)"

definition py_setitem :: "'a list \<Rightarrow> int \<Rightarrow> 'a \<Rightarrow> error + 'a list" where
  "py_setitem xs i v =
     (let n = int (length xs); j = (if i < 0 then i + n else i)
      in if 0 \<le> j \<and> j < n then Inr (xs[nat j := v]) else Inl IndexError)"

text \<open>
  A slice \<^verbatim>\<open>a:b\<close> with step 1; \<open>None\<close> is an omitted bound.  A negative bound counts from
  the end, and both bounds are clipped to \<open>0..n\<close>; a stop before the start gives the empty
  slice.
\<close>

datatype pyslice = Slice "int option" "int option"

definition slice_index :: "nat \<Rightarrow> int \<Rightarrow> nat" where
  "slice_index n i = nat (min (int n) (max 0 (if i < 0 then i + int n else i)))"

fun slice_start :: "nat \<Rightarrow> pyslice \<Rightarrow> nat" where
  "slice_start n (Slice None b) = 0"
| "slice_start n (Slice (Some a) b) = slice_index n a"

fun slice_stop :: "nat \<Rightarrow> pyslice \<Rightarrow> nat" where
  "slice_stop n (Slice a None) = n"
| "slice_stop n (Slice a (Some b)) = slice_index n b"

definition slice_len :: "nat \<Rightarrow> pyslice \<Rightarrow> nat" where
  "slice_len n s = slice_stop n s - slice_start n s"

text \<open>\<^verbatim>\<open>xs[a:b]\<close>, \<^verbatim>\<open>xs[a:b] = c\<close> for a scalar \<open>c\<close>, and \<^verbatim>\<open>xs[a:b] = v\<close> for an array \<open>v\<close>,
  which numpy accepts when \<open>v\<close> has the length of the slice or length 1.\<close>

definition getslice :: "'a list \<Rightarrow> pyslice \<Rightarrow> 'a list" where
  "getslice xs s = take (slice_len (length xs) s) (drop (slice_start (length xs) s) xs)"

definition fill_slice :: "'a list \<Rightarrow> pyslice \<Rightarrow> 'a \<Rightarrow> 'a list" where
  "fill_slice xs s c =
     (let start = slice_start (length xs) s; n = slice_len (length xs) s
      in take start xs @ replicate n c @ drop (start + n) xs)"

definition setslice :: "'a list \<Rightarrow> pyslice \<Rightarrow> 'a list \<Rightarrow> error + 'a list" where
  "setslice xs s v =
     (let start = slice_start (length xs) s; n = slice_len (length xs) s
      in if length v = n then Inr (take start xs @ v @ drop (start + n) xs)
         else if length v = 1 then Inr (take start xs @ replicate n (hd v) @ drop (start + n) xs)
         else Inl (ValueError ''could not broadcast input array''))"

text \<open>The same for a 3D array: \<^verbatim>\<open>a[sz, sy, sx]\<close> and \<^verbatim>\<open>a[sz, sy, sx] = v\<close>.\<close>

definition getslice3 :: "'a ndarray \<Rightarrow> pyslice \<Rightarrow> pyslice \<Rightarrow> pyslice \<Rightarrow> 'a ndarray" where
  "getslice3 a sz sy sx =
     (let nbz = shape a ! 0; nby = shape a ! 1; nbx = shape a ! 2;
          z0 = slice_start nbz sz; y0 = slice_start nby sy; x0 = slice_start nbx sx
      in \<lparr>shape = [slice_len nbz sz, slice_len nby sy, slice_len nbx sx],
          getitem = (\<lambda>idx. getitem a [z0 + idx ! 0, y0 + idx ! 1, x0 + idx ! 2])\<rparr>)"

definition broadcast_index :: "nat \<Rightarrow> nat \<Rightarrow> nat" where
  "broadcast_index n i = (if n = 1 then 0 else i)"

definition setslice3 ::
  "'a ndarray \<Rightarrow> pyslice \<Rightarrow> pyslice \<Rightarrow> pyslice \<Rightarrow> 'a ndarray \<Rightarrow> error + 'a ndarray" where
  "setslice3 a sz sy sx v =
     (let nbz = shape a ! 0; nby = shape a ! 1; nbx = shape a ! 2;
          z0 = slice_start nbz sz; y0 = slice_start nby sy; x0 = slice_start nbx sx;
          lz = slice_len nbz sz; ly = slice_len nby sy; lx = slice_len nbx sx;
          vz = shape v ! 0; vy = shape v ! 1; vx = shape v ! 2
      in if (vz = lz \<or> vz = 1) \<and> (vy = ly \<or> vy = 1) \<and> (vx = lx \<or> vx = 1)
         then Inr (a\<lparr>getitem := (\<lambda>idx.
                if z0 \<le> idx ! 0 \<and> idx ! 0 < z0 + lz \<and> y0 \<le> idx ! 1 \<and> idx ! 1 < y0 + ly
                   \<and> x0 \<le> idx ! 2 \<and> idx ! 2 < x0 + lx
                then getitem v [broadcast_index vz (idx ! 0 - z0), broadcast_index vy (idx ! 1 - y0),
                                broadcast_index vx (idx ! 2 - x0)]
                else getitem a idx)\<rparr>)
         else Inl (ValueError ''could not broadcast input array''))"

section \<open>\<^verbatim>\<open>zero_pad\<close>: the padding primitive\<close>

text \<open>
  \<^verbatim>\<open>
  if array.ndim != 3:
      raise ValueError('3D Array expected, got ', array.ndim, 'D')
  nbz, nby, nbx = array.shape
  padding_z0 = padding_width[0]
  ...
  padding_x1 = padding_width[5]
  if mask_flag:
      newobj = np.ones((nbz + padding_z0 + padding_z1, nby + padding_y0 + padding_y1, nbx + padding_x0 + padding_x1))
  else:
      newobj = np.zeros((nbz + padding_z0 + padding_z1, nby + padding_y0 + padding_y1, nbx + padding_x0 + padding_x1))
  newobj[padding_z0:padding_z0 + nbz, padding_y0:padding_y0 + nby, padding_x0:padding_x0 + nbx] = array
  return newobj
  \<close>
  \<^verbatim>\<open>np.ones\<close> and \<^verbatim>\<open>np.zeros\<close> raise \<^verbatim>\<open>ValueError\<close> for a negative dimension.  The plots
  of the \<^verbatim>\<open>debugging\<close> flag have no effect on the result and are left out.
\<close>

definition zero_pad :: "'a::{zero,one} ndarray \<Rightarrow> int list \<Rightarrow> bool \<Rightarrow> error + 'a ndarray" where
  "zero_pad array padding_width mask_flag =
     (if length (shape array) \<noteq> 3 then Inl (ValueError ''3D Array expected'')
      else if length padding_width < 6 then Inl IndexError
      else
        let nbz = int (shape array ! 0); nby = int (shape array ! 1); nbx = int (shape array ! 2);
            padding_z0 = padding_width ! 0; padding_z1 = padding_width ! 1;
            padding_y0 = padding_width ! 2; padding_y1 = padding_width ! 3;
            padding_x0 = padding_width ! 4; padding_x1 = padding_width ! 5;
            newz = nbz + padding_z0 + padding_z1;
            newy = nby + padding_y0 + padding_y1;
            newx = nbx + padding_x0 + padding_x1
        in if newz < 0 \<or> newy < 0 \<or> newx < 0
           then Inl (ValueError ''negative dimensions are not allowed'')
           else
             let newobj = full [nat newz, nat newy, nat newx] (if mask_flag then 1 else 0)
             in setslice3 newobj (Slice (Some padding_z0) (Some (padding_z0 + nbz)))
                                 (Slice (Some padding_y0) (Some (padding_y0 + nby)))
                                 (Slice (Some padding_x0) (Some (padding_x0 + nbx))) array)"

section \<open>\<^verbatim>\<open>center_fft\<close>: the centering and crop/pad engine\<close>

subsection \<open>Sequencing of statements that may raise\<close>

text \<open>
  A statement that raises ends the function with the exception (\<open>bindE\<close>); a call of
  \<^verbatim>\<open>higher_primes\<close> may moreover not return (\<open>bindO\<close>, with \<open>None\<close> for a call that does
  not return).
\<close>

definition bindE :: "error + 'a \<Rightarrow> ('a \<Rightarrow> error + 'b) \<Rightarrow> error + 'b" where
  "bindE m f = (case m of Inl e \<Rightarrow> Inl e | Inr x \<Rightarrow> f x)"

definition bindO ::
  "(error + 'a) option \<Rightarrow> ('a \<Rightarrow> (error + 'b) option) \<Rightarrow> (error + 'b) option" where
  "bindO m f = (case m of None \<Rightarrow> None | Some (Inl e) \<Rightarrow> Some (Inl e) | Some (Inr x) \<Rightarrow> f x)"

declare higher_loop.simps [code]

subsection \<open>Numbers\<close>

text \<open>
  A float is a rational or one of the special values; \<^verbatim>\<open>round\<close> of a float rounds a half
  to the even neighbour and raises for the special values, and \<^verbatim>\<open>round\<close> of an integer is the
  integer.  \<^verbatim>\<open>int\<close> of a float truncates towards zero.  The floats of the pad-width formulas are
  integers and halves of integers, which binary floating point represents exactly.
\<close>

datatype pyfloat = Finite rat | NaN | Infinity

datatype pynum = PyI int | PyF pyfloat

definition round_half_even :: "rat \<Rightarrow> int" where
  "round_half_even q =
     (let f = \<lfloor>q\<rfloor>; d = q - of_int f
      in if d < 1 / 2 then f else if 1 / 2 < d then f + 1 else if even f then f else f + 1)"

fun py_round :: "pynum \<Rightarrow> error + int" where
  "py_round (PyI i) = Inr i"
| "py_round (PyF (Finite q)) = Inr (round_half_even q)"
| "py_round (PyF NaN) = Inl (ValueError ''cannot convert float NaN to integer'')"
| "py_round (PyF Infinity) = Inl OverflowError"

definition py_int :: "rat \<Rightarrow> int" where
  "py_int q = (if 0 \<le> q then \<lfloor>q\<rfloor> else \<lceil>q\<rceil>)"

subsection \<open>Locating the Bragg peak\<close>

text \<open>
  \<^verbatim>\<open>np.unravel_index(abs(data).argmax(), data.shape)\<close>: the first multi-index, in C order, of
  the largest absolute value; \<^verbatim>\<open>argmax\<close> raises \<^verbatim>\<open>ValueError\<close> for an empty array.
\<close>

definition argmax_abs :: "'a::linordered_idom ndarray \<Rightarrow> error + nat list" where
  "argmax_abs a =
     (case indices (shape a) of
        [] \<Rightarrow> Inl (ValueError ''attempt to get argmax of an empty sequence'')
      | i0 # rest \<Rightarrow>
          Inr (fold (\<lambda>i best. if \<bar>getitem a best\<bar> < \<bar>getitem a i\<bar> then i else best) rest i0))"

text \<open>
  \<^verbatim>\<open>
  if centering == 'max':
      z0, y0, x0 = np.unravel_index(abs(data).argmax(), data.shape)
  elif centering == 'com':
      z0, y0, x0 = center_of_mass(data)
  else:
      raise ValueError("Incorrect value for 'centering' parameter")

  if len(fix_bragg) != 0:
      if len(fix_bragg) != 3:
          raise ValueError('fix_bragg should be a list of 3 integers')
      z0, y0, x0 = fix_bragg

  iz0, iy0, ix0 = int(round(z0)), int(round(y0)), int(round(x0))
  print('data at Bragg peak = ', data[iz0, iy0, ix0])
  \<close>
  \<^verbatim>\<open>center_of_mass\<close> is scipy's; it is a parameter of the model and returns three floats.
  Reading \<^verbatim>\<open>data[iz0, iy0, ix0]\<close> raises \<^verbatim>\<open>IndexError\<close> for an index out of range.
\<close>

definition locate_peak ::
  "('a ndarray \<Rightarrow> pyfloat \<times> pyfloat \<times> pyfloat) \<Rightarrow> 'a::linordered_idom ndarray \<Rightarrow> string \<Rightarrow> int list
     \<Rightarrow> error + int \<times> int \<times> int" where
  "locate_peak center_of_mass data centering fix_bragg =
     bindE (if centering = ''max''
            then bindE (argmax_abs data)
                   (\<lambda>p. Inr (PyI (int (p ! 0)), PyI (int (p ! 1)), PyI (int (p ! 2))))
            else if centering = ''com''
            then (case center_of_mass data of (z, y, x) \<Rightarrow> Inr (PyF z, PyF y, PyF x))
            else Inl (ValueError ''Incorrect value for centering parameter''))
       (\<lambda>(z0, y0, x0).
          bindE (if length fix_bragg \<noteq> 0
                 then (if length fix_bragg \<noteq> 3
                       then Inl (ValueError ''fix_bragg should be a list of 3 integers'')
                       else Inr (PyI (fix_bragg ! 0), PyI (fix_bragg ! 1), PyI (fix_bragg ! 2)))
                 else Inr (z0, y0, x0))
            (\<lambda>(z0, y0, x0).
               bindE (py_round z0) (\<lambda>iz0.
               bindE (py_round y0) (\<lambda>iy0.
               bindE (py_round x0) (\<lambda>ix0.
                 if index_ok (shape data ! 0) iz0 \<and> index_ok (shape data ! 1) iy0
                    \<and> index_ok (shape data ! 2) ix0
                 then Inr (iz0, iy0, ix0)
                 else Inl IndexError)))))"

subsection \<open>Statements that several policies share\<close>

text \<open>
  Unpacking the result of \<^verbatim>\<open>smaller_primes\<close> into two or three names: an integer cannot be
  unpacked (\<^verbatim>\<open>TypeError\<close>), a sequence of another length raises \<^verbatim>\<open>ValueError\<close>.
\<close>

definition seq_items :: "pyval \<Rightarrow> error + int list" where
  "seq_items v =
     (case v of PyInt n \<Rightarrow> Inl TypeError | PyList xs \<Rightarrow> Inr xs | PyTuple xs \<Rightarrow> Inr xs
      | NdArray xs \<Rightarrow> Inr xs)"

definition unpack3 :: "pyval \<Rightarrow> error + int \<times> int \<times> int" where
  "unpack3 v =
     bindE (seq_items v) (\<lambda>xs.
       if length xs = 3 then Inr (xs ! 0, xs ! 1, xs ! 2)
       else Inl (ValueError ''wrong number of values to unpack''))"

definition unpack2 :: "pyval \<Rightarrow> error + int \<times> int" where
  "unpack2 v =
     bindE (seq_items v) (\<lambda>xs.
       if length xs = 2 then Inr (xs ! 0, xs ! 1)
       else Inl (ValueError ''wrong number of values to unpack''))"

text \<open>
  \<^verbatim>\<open>
  if lo > 0:  # if 0, the first frame is used
      frames_logical[0:lo] = 0
  if hi < nbz:  # if nbz, the last frame is used
      frames_logical[hi:] = 0
  \<close>
  with \<open>lo\<close> and \<open>hi\<close> the bounds of the rocking-axis slice of the policy.
\<close>

definition crop_frames :: "int list \<Rightarrow> int \<Rightarrow> int \<Rightarrow> int \<Rightarrow> int list" where
  "crop_frames frames_logical lo hi nbz =
     (let frames1 = (if lo > 0 then fill_slice frames_logical (Slice (Some 0) (Some lo)) 0
                     else frames_logical)
      in if hi < nbz then fill_slice frames1 (Slice (Some hi) None) 0 else frames1)"

text \<open>
  \<^verbatim>\<open>
  temp_frames = -1 * np.ones(data.shape[0])
  temp_frames[pad_width[0]:pad_width[0] + nbz] = frames_logical
  frames_logical = temp_frames
  \<close>
  with \<open>data\<close> the padded array.
\<close>

definition pad_frames :: "'a ndarray \<Rightarrow> int list \<Rightarrow> int \<Rightarrow> int list \<Rightarrow> error + int list" where
  "pad_frames data pad_width nbz frames_logical =
     (let temp_frames = replicate (shape data ! 0) (- 1)
      in setslice temp_frames (Slice (Some (pad_width ! 0)) (Some (pad_width ! 0 + nbz)))
           frames_logical)"

text \<open>
  \<^verbatim>\<open>
  dqx = qx[1] - qx[0]
  qx0 = qx[0] - pad_width[0] * dqx
  qx = qx0 + np.arange(pad_size[0])*dqx
  \<close>
  for one q axis, with the pad width and the number of samples that the policy uses.  The
  q values are exact rationals.
\<close>

definition extrapolate_q :: "rat list \<Rightarrow> int \<Rightarrow> int \<Rightarrow> error + rat list" where
  "extrapolate_q q pad n =
     bindE (py_getitem q 1) (\<lambda>q1.
     bindE (py_getitem q 0) (\<lambda>q0.
       let dq = q1 - q0; qstart = q0 - of_int pad * dq
       in Inr (map (\<lambda>k. qstart + of_nat k * dq) [0..<nat n])))"

text \<open>
  The pad widths of the symmetric policies,
  \<^verbatim>\<open>int(min(pad_size[0]/2-iz0, pad_size[0]-nbz))\<close> and
  \<^verbatim>\<open>int(min(pad_size[0]/2-nbz + iz0, pad_size[0]-nbz))\<close>,
  and of the asymmetric ones,
  \<^verbatim>\<open>int((nz1-nbz+((nz1-nbz) % 2))/2)\<close> and \<^verbatim>\<open>int((nz1-nbz+1)/2-((nz1-nbz) % 2))\<close>.
  The low asymmetric width takes the size whose parity it adds as a third argument: the
  source writes \<^verbatim>\<open>(nz1-nbz) % 2\<close> on the rocking axis and \<^verbatim>\<open>(nx1-nbx) % 2\<close> on the last axis,
  but \<^verbatim>\<open>(pad_size[1]-nby) % 2\<close> on the middle axis.
\<close>

definition pad_low_sym :: "int \<Rightarrow> int \<Rightarrow> int \<Rightarrow> int" where
  "pad_low_sym ps i0 nb = py_int (min (of_int ps / 2 - of_int i0) (of_int (ps - nb)))"

definition pad_high_sym :: "int \<Rightarrow> int \<Rightarrow> int \<Rightarrow> int" where
  "pad_high_sym ps i0 nb = py_int (min (of_int ps / 2 - of_int nb + of_int i0) (of_int (ps - nb)))"

definition pad_low_asym :: "int \<Rightarrow> int \<Rightarrow> int \<Rightarrow> int" where
  "pad_low_asym n1 nb parity_of = py_int (of_int (n1 - nb + ((parity_of - nb) mod 2)) / 2)"

definition pad_high_asym :: "int \<Rightarrow> int \<Rightarrow> int" where
  "pad_high_asym n1 nb = py_int (of_int (n1 - nb + 1) / 2 - of_int ((n1 - nb) mod 2))"

text \<open>
  \<^verbatim>\<open>
  if pad_size[0] != higher_primes(pad_size[0], maxprime=7, required_dividers=(2,)):
      raise ValueError(pad_size[0], 'does not meet FFT requirements')
  \<close>
  and \<^verbatim>\<open>nz1 = higher_primes(nbz, maxprime=7, required_dividers=(2,))\<close>.
\<close>

definition meets_fft :: "int \<Rightarrow> (error + unit) option" where
  "meets_fft p =
     bindO (higher_primes (PyInt p) 7 (Some [2])) (\<lambda>v.
       if PyInt p \<noteq> v then Some (Inl (ValueError ''does not meet FFT requirements''))
       else Some (Inr ()))"

definition higher_int :: "int \<Rightarrow> (error + int) option" where
  "higher_int n =
     bindO (higher_primes (PyInt n) 7 (Some [2])) (\<lambda>v.
       case v of PyInt r \<Rightarrow> Some (Inr r) | _ \<Rightarrow> Some (Inl TypeError))"

subsection \<open>The nine policies\<close>

text \<open>
  What a policy leaves behind: the data, the mask, \<^verbatim>\<open>pad_width\<close>, \<^verbatim>\<open>frames_logical\<close> and the
  three q axes \<^verbatim>\<open>qx\<close>, \<^verbatim>\<open>qy\<close>, \<^verbatim>\<open>qz\<close>.  The mask is called \<open>mask_arr\<close>.
\<close>

type_synonym 'a branch_result =
  "'a ndarray \<times> 'a ndarray \<times> int list \<times> int list \<times> rat list \<times> rat list \<times> rat list"

text \<open>
  \<^verbatim>\<open>
  nz1, ny1, nx1 = smaller_primes((max_nz, max_ny, max_nx), maxprime=7, required_dividers=(2,))
  pad_width = np.zeros(6, dtype=int)
  data = data[iz0 - nz1 // 2:iz0 + nz1//2, iy0 - ny1//2:iy0 + ny1//2, ix0 - nx1//2:ix0 + nx1//2]
  mask = mask[iz0 - nz1 // 2:iz0 + nz1//2, iy0 - ny1//2:iy0 + ny1//2, ix0 - nx1//2:ix0 + nx1//2]
  if (iz0 - nz1//2) > 0:  # if 0, the first frame is used
      frames_logical[0:iz0 - nz1 // 2] = 0
  if (iz0 + nz1 // 2) < nbz:  # if nbz, the last frame is used
      frames_logical[iz0 + nz1 // 2:] = 0
  if len(q_values) != 0:
      qx = qx[iz0 - nz1//2:iz0 + nz1//2]
      qy = qy[ix0 - nx1//2:ix0 + nx1//2]
      qz = qz[iy0 - ny1//2:iy0 + ny1//2]
  \<close>
\<close>

definition crop_symmetric_ZYX ::
  "'a ndarray \<Rightarrow> 'a ndarray \<Rightarrow> int list \<Rightarrow> rat list list \<Rightarrow> rat list \<Rightarrow> rat list \<Rightarrow> rat list
     \<Rightarrow> int \<Rightarrow> int \<Rightarrow> int \<Rightarrow> int \<Rightarrow> int \<Rightarrow> int \<Rightarrow> int \<Rightarrow> error + 'a branch_result" where
  "crop_symmetric_ZYX data mask_arr frames_logical q_values qx qy qz iz0 iy0 ix0 nbz
       max_nz max_ny max_nx =
     bindE (smaller_primes (PyTuple [max_nz, max_ny, max_nx]) 7 (Some [2])) (\<lambda>v.
     bindE (unpack3 v) (\<lambda>(nz1, ny1, nx1).
       let pad_width = replicate 6 0;
           sz = Slice (Some (iz0 - nz1 div 2)) (Some (iz0 + nz1 div 2));
           sy = Slice (Some (iy0 - ny1 div 2)) (Some (iy0 + ny1 div 2));
           sx = Slice (Some (ix0 - nx1 div 2)) (Some (ix0 + nx1 div 2));
           data' = getslice3 data sz sy sx;
           mask_arr' = getslice3 mask_arr sz sy sx;
           frames' = crop_frames frames_logical (iz0 - nz1 div 2) (iz0 + nz1 div 2) nbz
       in if length q_values \<noteq> 0
          then Inr (data', mask_arr', pad_width, frames',
                    getslice qx sz, getslice qy sx, getslice qz sy)
          else Inr (data', mask_arr', pad_width, frames', qx, qy, qz)))"

text \<open>
  The same with \<^verbatim>\<open>smaller_primes((nbz, nby, nbx), ...)\<close> and the slices
  \<^verbatim>\<open>nbz//2 - nz1//2:nbz//2 + nz1//2\<close> around the middle of each axis.
\<close>

definition crop_asymmetric_ZYX ::
  "'a ndarray \<Rightarrow> 'a ndarray \<Rightarrow> int list \<Rightarrow> rat list list \<Rightarrow> rat list \<Rightarrow> rat list \<Rightarrow> rat list
     \<Rightarrow> int \<Rightarrow> int \<Rightarrow> int \<Rightarrow> error + 'a branch_result" where
  "crop_asymmetric_ZYX data mask_arr frames_logical q_values qx qy qz nbz nby nbx =
     bindE (smaller_primes (PyTuple [nbz, nby, nbx]) 7 (Some [2])) (\<lambda>v.
     bindE (unpack3 v) (\<lambda>(nz1, ny1, nx1).
       let pad_width = replicate 6 0;
           sz = Slice (Some (nbz div 2 - nz1 div 2)) (Some (nbz div 2 + nz1 div 2));
           sy = Slice (Some (nby div 2 - ny1 div 2)) (Some (nby div 2 + ny1 div 2));
           sx = Slice (Some (nbx div 2 - nx1 div 2)) (Some (nbx div 2 + nx1 div 2));
           data' = getslice3 data sz sy sx;
           mask_arr' = getslice3 mask_arr sz sy sx;
           frames' = crop_frames frames_logical (nbz div 2 - nz1 div 2) (nbz div 2 + nz1 div 2) nbz
       in if length q_values \<noteq> 0
          then Inr (data', mask_arr', pad_width, frames',
                    getslice qx sz, getslice qy sx, getslice qz sy)
          else Inr (data', mask_arr', pad_width, frames', qx, qy, qz)))"

text \<open>
  The four policies that pad the rocking axis only end with the same statements, given
  their \<^verbatim>\<open>pad_width\<close>, the number \<open>nz_out\<close> of samples of the new \<^verbatim>\<open>qx\<close> and the detector
  slices (\<open>None\<close> when the detector is kept, where \<^verbatim>\<open>qy\<close> and \<^verbatim>\<open>qz\<close> stay as they are):
  \<^verbatim>\<open>
  data = zero_pad(data, padding_width=pad_width, mask_flag=False)
  mask = zero_pad(mask, padding_width=pad_width, mask_flag=True)  # mask padded pixels
  temp_frames = -1 * np.ones(data.shape[0])
  temp_frames[pad_width[0]:pad_width[0] + nbz] = frames_logical
  frames_logical = temp_frames
  if len(q_values) != 0:
      dqx = qx[1] - qx[0]
      qx0 = qx[0] - pad_width[0] * dqx
      qx = qx0 + np.arange(pad_size[0])*dqx
      qy = qy[ix0 - nx1 // 2:ix0 + nx1 // 2]
      qz = qz[iy0 - ny1 // 2:iy0 + ny1 // 2]
  \<close>
\<close>

definition pad_Z ::
  "'a::{zero,one} ndarray \<Rightarrow> 'a ndarray \<Rightarrow> int list \<Rightarrow> rat list list \<Rightarrow> rat list \<Rightarrow> rat list
     \<Rightarrow> rat list \<Rightarrow> int \<Rightarrow> int list \<Rightarrow> int \<Rightarrow> pyslice option \<Rightarrow> pyslice option
     \<Rightarrow> error + 'a branch_result" where
  "pad_Z data mask_arr frames_logical q_values qx qy qz nbz pad_width nz_out sy sx =
     bindE (zero_pad data pad_width False) (\<lambda>data'.
     bindE (zero_pad mask_arr pad_width True) (\<lambda>mask_arr'.
     bindE (pad_frames data' pad_width nbz frames_logical) (\<lambda>frames'.
       if length q_values \<noteq> 0
       then bindE (extrapolate_q qx (pad_width ! 0) nz_out) (\<lambda>qx'.
              Inr (data', mask_arr', pad_width, frames', qx',
                   (case sx of None \<Rightarrow> qy | Some s \<Rightarrow> getslice qy s),
                   (case sy of None \<Rightarrow> qz | Some s \<Rightarrow> getslice qz s)))
       else Inr (data', mask_arr', pad_width, frames', qx, qy, qz))))"

text \<open>
  \<^verbatim>\<open>
  if len(pad_size) != 3:
      raise ValueError('pad_size should be a list of three elements')
  if pad_size[0] != higher_primes(pad_size[0], maxprime=7, required_dividers=(2,)):
      raise ValueError(pad_size[0], 'does not meet FFT requirements')
  ny1, nx1 = smaller_primes((max_ny, max_nx), maxprime=7, required_dividers=(2,))
  data = data[:, iy0 - ny1//2:iy0 + ny1//2, ix0 - nx1//2:ix0 + nx1//2]
  mask = mask[:, iy0 - ny1//2:iy0 + ny1//2, ix0 - nx1//2:ix0 + nx1//2]
  pad_width = np.array([int(min(pad_size[0]/2-iz0, pad_size[0]-nbz)),
                        int(min(pad_size[0]/2-nbz + iz0, pad_size[0]-nbz)),
                        0, 0, 0, 0], dtype=int)
  \<close>
  No statement of this policy changes a negative entry of \<^verbatim>\<open>pad_width\<close>.
\<close>

definition pad_symmetric_Z_crop_YX ::
  "'a::{zero,one} ndarray \<Rightarrow> 'a ndarray \<Rightarrow> int list \<Rightarrow> rat list list \<Rightarrow> rat list \<Rightarrow> rat list
     \<Rightarrow> rat list \<Rightarrow> int \<Rightarrow> int \<Rightarrow> int \<Rightarrow> int \<Rightarrow> int \<Rightarrow> int \<Rightarrow> int list
     \<Rightarrow> (error + 'a branch_result) option" where
  "pad_symmetric_Z_crop_YX data mask_arr frames_logical q_values qx qy qz iz0 iy0 ix0 nbz
       max_ny max_nx pad_size =
     (if length pad_size \<noteq> 3
      then Some (Inl (ValueError ''pad_size should be a list of three elements''))
      else bindO (meets_fft (pad_size ! 0)) (\<lambda>_. Some (
        bindE (smaller_primes (PyTuple [max_ny, max_nx]) 7 (Some [2])) (\<lambda>v.
        bindE (unpack2 v) (\<lambda>(ny1, nx1).
          let sy = Slice (Some (iy0 - ny1 div 2)) (Some (iy0 + ny1 div 2));
              sx = Slice (Some (ix0 - nx1 div 2)) (Some (ix0 + nx1 div 2));
              data' = getslice3 data (Slice None None) sy sx;
              mask_arr' = getslice3 mask_arr (Slice None None) sy sx;
              pad_width = [pad_low_sym (pad_size ! 0) iz0 nbz, pad_high_sym (pad_size ! 0) iz0 nbz,
                           0, 0, 0, 0]
          in pad_Z data' mask_arr' frames_logical q_values qx qy qz nbz pad_width (pad_size ! 0)
               (Some sy) (Some sx))))))"

text \<open>
  \<^verbatim>\<open>
  ny1, nx1 = smaller_primes((max_ny, max_nx), maxprime=7, required_dividers=(2,))
  nz1 = higher_primes(nbz, maxprime=7, required_dividers=(2,))
  data = data[:, iy0 - ny1//2:iy0 + ny1//2, ix0 - nx1//2:ix0 + nx1//2]
  mask = mask[:, iy0 - ny1//2:iy0 + ny1//2, ix0 - nx1//2:ix0 + nx1//2]
  pad_width = np.array([int((nz1 - nbz + ((nz1 - nbz) % 2)) / 2),
                        int((nz1 - nbz + 1) / 2 - ((nz1 - nbz) % 2)),
                        0, 0, 0, 0], dtype=int)
  \<close>
\<close>

definition pad_asymmetric_Z_crop_YX ::
  "'a::{zero,one} ndarray \<Rightarrow> 'a ndarray \<Rightarrow> int list \<Rightarrow> rat list list \<Rightarrow> rat list \<Rightarrow> rat list
     \<Rightarrow> rat list \<Rightarrow> int \<Rightarrow> int \<Rightarrow> int \<Rightarrow> int \<Rightarrow> int \<Rightarrow> (error + 'a branch_result) option" where
  "pad_asymmetric_Z_crop_YX data mask_arr frames_logical q_values qx qy qz iy0 ix0 nbz
       max_ny max_nx =
     (case smaller_primes (PyTuple [max_ny, max_nx]) 7 (Some [2]) of
        Inl e \<Rightarrow> Some (Inl e)
      | Inr v \<Rightarrow>
         (case unpack2 v of
            Inl e \<Rightarrow> Some (Inl e)
          | Inr (ny1, nx1) \<Rightarrow>
              bindO (higher_int nbz) (\<lambda>nz1. Some (
                let sy = Slice (Some (iy0 - ny1 div 2)) (Some (iy0 + ny1 div 2));
                    sx = Slice (Some (ix0 - nx1 div 2)) (Some (ix0 + nx1 div 2));
                    data' = getslice3 data (Slice None None) sy sx;
                    mask_arr' = getslice3 mask_arr (Slice None None) sy sx;
                    pad_width = [pad_low_asym nz1 nbz nz1, pad_high_asym nz1 nbz, 0, 0, 0, 0]
                in pad_Z data' mask_arr' frames_logical q_values qx qy qz nbz pad_width nz1
                     (Some sy) (Some sx)))))"

text \<open>
  \<^verbatim>\<open>pad_symmetric_Z\<close> and \<^verbatim>\<open>pad_asymmetric_Z\<close>: the two policies above without the crop of
  the detector axes.  Here too a negative entry of the symmetric \<^verbatim>\<open>pad_width\<close> goes to
  \<^verbatim>\<open>zero_pad\<close> as it is.
\<close>

definition pad_symmetric_Z ::
  "'a::{zero,one} ndarray \<Rightarrow> 'a ndarray \<Rightarrow> int list \<Rightarrow> rat list list \<Rightarrow> rat list \<Rightarrow> rat list
     \<Rightarrow> rat list \<Rightarrow> int \<Rightarrow> int \<Rightarrow> int list \<Rightarrow> (error + 'a branch_result) option" where
  "pad_symmetric_Z data mask_arr frames_logical q_values qx qy qz iz0 nbz pad_size =
     (if length pad_size \<noteq> 3
      then Some (Inl (ValueError ''pad_size should be a list of three elements''))
      else bindO (meets_fft (pad_size ! 0)) (\<lambda>_. Some (
        let pad_width = [pad_low_sym (pad_size ! 0) iz0 nbz, pad_high_sym (pad_size ! 0) iz0 nbz,
                         0, 0, 0, 0]
        in pad_Z data mask_arr frames_logical q_values qx qy qz nbz pad_width (pad_size ! 0)
             None None)))"

definition pad_asymmetric_Z ::
  "'a::{zero,one} ndarray \<Rightarrow> 'a ndarray \<Rightarrow> int list \<Rightarrow> rat list list \<Rightarrow> rat list \<Rightarrow> rat list
     \<Rightarrow> rat list \<Rightarrow> int \<Rightarrow> (error + 'a branch_result) option" where
  "pad_asymmetric_Z data mask_arr frames_logical q_values qx qy qz nbz =
     bindO (higher_int nbz) (\<lambda>nz1. Some (
       let pad_width = [pad_low_asym nz1 nbz nz1, pad_high_asym nz1 nbz, 0, 0, 0, 0]
       in pad_Z data mask_arr frames_logical q_values qx qy qz nbz pad_width nz1 None None))"

text \<open>
  The two policies that pad the three axes end with
  \<^verbatim>\<open>
  data = zero_pad(data, padding_width=pad_width, mask_flag=False)
  mask = zero_pad(mask, padding_width=pad_width, mask_flag=True)  # mask padded pixels
  temp_frames = -1 * np.ones(data.shape[0])
  temp_frames[pad_width[0]:pad_width[0] + nbz] = frames_logical
  frames_logical = temp_frames
  if len(q_values) != 0:
      dqx = qx[1] - qx[0]
      dqy = qy[1] - qy[0]
      dqz = qz[1] - qz[0]
      qx0 = qx[0] - pad_width[0] * dqx
      qy0 = qy[0] - pad_width[2] * dqy
      qz0 = qz[0] - pad_width[1] * dqz
      qx = qx0 + np.arange(pad_size[0]) * dqx
      qy = qy0 + np.arange(pad_size[2]) * dqy
      qz = qz0 + np.arange(pad_size[1]) * dqz
  \<close>
  (with \<^verbatim>\<open>nz1\<close>, \<^verbatim>\<open>nx1\<close>, \<^verbatim>\<open>ny1\<close> for the numbers of samples in the asymmetric policy).
\<close>

definition pad_ZYX ::
  "'a::{zero,one} ndarray \<Rightarrow> 'a ndarray \<Rightarrow> int list \<Rightarrow> rat list list \<Rightarrow> rat list \<Rightarrow> rat list
     \<Rightarrow> rat list \<Rightarrow> int \<Rightarrow> int list \<Rightarrow> int \<Rightarrow> int \<Rightarrow> int \<Rightarrow> error + 'a branch_result" where
  "pad_ZYX data mask_arr frames_logical q_values qx qy qz nbz pad_width nz_out ny_out nx_out =
     bindE (zero_pad data pad_width False) (\<lambda>data'.
     bindE (zero_pad mask_arr pad_width True) (\<lambda>mask_arr'.
     bindE (pad_frames data' pad_width nbz frames_logical) (\<lambda>frames'.
       if length q_values \<noteq> 0
       then bindE (extrapolate_q qx (pad_width ! 0) nz_out) (\<lambda>qx'.
            bindE (extrapolate_q qy (pad_width ! 2) nx_out) (\<lambda>qy'.
            bindE (extrapolate_q qz (pad_width ! 1) ny_out) (\<lambda>qz'.
              Inr (data', mask_arr', pad_width, frames', qx', qy', qz'))))
       else Inr (data', mask_arr', pad_width, frames', qx, qy, qz))))"

text \<open>
  \<^verbatim>\<open>
  if len(pad_size) != 3:
      raise ValueError('pad_size should be a list of 3 integers')
  if pad_size[0] != higher_primes(pad_size[0], maxprime=7, required_dividers=(2,)):
      raise ValueError(pad_size[0], 'does not meet FFT requirements')
  ... the same for pad_size[1] and pad_size[2] ...
  pad_width = [int(min(pad_size[0]/2-iz0, pad_size[0]-nbz)), int(min(pad_size[0]/2-nbz + iz0, pad_size[0]-nbz)),
               int(min(pad_size[1]/2-iy0, pad_size[1]-nby)), int(min(pad_size[1]/2-nby + iy0, pad_size[1]-nby)),
               int(min(pad_size[2]/2-ix0, pad_size[2]-nbx)), int(min(pad_size[2]/2-nbx + ix0, pad_size[2]-nbx))]
  pad_width = np.array(list((map(lambda value: max(value, 0), pad_width))), dtype=int)  # remove negative numbers
  \<close>
\<close>

definition pad_symmetric_ZYX ::
  "'a::{zero,one} ndarray \<Rightarrow> 'a ndarray \<Rightarrow> int list \<Rightarrow> rat list list \<Rightarrow> rat list \<Rightarrow> rat list
     \<Rightarrow> rat list \<Rightarrow> int \<Rightarrow> int \<Rightarrow> int \<Rightarrow> int \<Rightarrow> int \<Rightarrow> int \<Rightarrow> int list
     \<Rightarrow> (error + 'a branch_result) option" where
  "pad_symmetric_ZYX data mask_arr frames_logical q_values qx qy qz iz0 iy0 ix0 nbz nby nbx
       pad_size =
     (if length pad_size \<noteq> 3
      then Some (Inl (ValueError ''pad_size should be a list of 3 integers''))
      else bindO (meets_fft (pad_size ! 0)) (\<lambda>_.
           bindO (meets_fft (pad_size ! 1)) (\<lambda>_.
           bindO (meets_fft (pad_size ! 2)) (\<lambda>_. Some (
             let pad_width =
                   [pad_low_sym (pad_size ! 0) iz0 nbz, pad_high_sym (pad_size ! 0) iz0 nbz,
                    pad_low_sym (pad_size ! 1) iy0 nby, pad_high_sym (pad_size ! 1) iy0 nby,
                    pad_low_sym (pad_size ! 2) ix0 nbx, pad_high_sym (pad_size ! 2) ix0 nbx];
                 pad_width = map (\<lambda>value. max value 0) pad_width
             in pad_ZYX data mask_arr frames_logical q_values qx qy qz nbz pad_width
                  (pad_size ! 0) (pad_size ! 1) (pad_size ! 2))))))"

text \<open>
  \<^verbatim>\<open>
  nz1, ny1, nx1 = [higher_primes(nbz, maxprime=7, required_dividers=(2,)),
                   higher_primes(nby, maxprime=7, required_dividers=(2,)),
                   higher_primes(nbx, maxprime=7, required_dividers=(2,))]
  pad_width = np.array(
      [int((nz1-nbz+((nz1-nbz) % 2))/2), int((nz1-nbz+1)/2-((nz1-nbz) % 2)),
       int((ny1-nby+((pad_size[1]-nby) % 2))/2), int((ny1-nby+1)/2-((ny1-nby) % 2)),
       int((nx1-nbx+((nx1-nbx) % 2))/2), int((nx1-nbx+1)/2-((nx1-nbx) % 2))])
  \<close>
  \<^verbatim>\<open>pad_size[1]\<close> in the third entry raises \<^verbatim>\<open>IndexError\<close> when \<^verbatim>\<open>pad_size\<close> has fewer than two
  elements, as the default \<^verbatim>\<open>[]\<close> has.
\<close>

definition pad_asymmetric_ZYX ::
  "'a::{zero,one} ndarray \<Rightarrow> 'a ndarray \<Rightarrow> int list \<Rightarrow> rat list list \<Rightarrow> rat list \<Rightarrow> rat list
     \<Rightarrow> rat list \<Rightarrow> int \<Rightarrow> int \<Rightarrow> int \<Rightarrow> int list \<Rightarrow> (error + 'a branch_result) option" where
  "pad_asymmetric_ZYX data mask_arr frames_logical q_values qx qy qz nbz nby nbx pad_size =
     bindO (higher_int nbz) (\<lambda>nz1.
     bindO (higher_int nby) (\<lambda>ny1.
     bindO (higher_int nbx) (\<lambda>nx1. Some (
       bindE (py_getitem pad_size 1) (\<lambda>pad_size_1.
         let pad_width = [pad_low_asym nz1 nbz nz1, pad_high_asym nz1 nbz,
                          pad_low_asym ny1 nby pad_size_1, pad_high_asym ny1 nby,
                          pad_low_asym nx1 nbx nx1, pad_high_asym nx1 nbx]
         in pad_ZYX data mask_arr frames_logical q_values qx qy qz nbz pad_width nz1 ny1 nx1)))))"

text \<open>
  \<^verbatim>\<open>
  pad_width = np.zeros(6, dtype=int)  # do nothing or crop the data, starting_frame should be 0
  if len(fix_size) == 3:
      # size of output array defined
      nbz, nby, nbx = np.shape(data)
      z_pan = fix_size[1] - fix_size[0]
      y_pan = fix_size[3] - fix_size[2]
      x_pan = fix_size[5] - fix_size[4]
      if z_pan > nbz or y_pan > nby or x_pan > nbx or fix_size[1] > nbz or fix_size[3] > nby or fix_size[5] > nbx:
          raise ValueError("Predefined fix_size uncorrect")
      else:
          data = data[fix_size[0]:fix_size[1], fix_size[2]:fix_size[3], fix_size[4]:fix_size[5]]
          mask = mask[fix_size[0]:fix_size[1], fix_size[2]:fix_size[3], fix_size[4]:fix_size[5]]
          if fix_size[0] > 0:  # if 0, the first frame is used
              frames_logical[0:fix_size[0]] = 0
          if fix_size[1] < nbz:  # if nbz, the last frame is used
              frames_logical[fix_size[1]:] = 0
          if len(q_values) != 0:
              qx = qx[fix_size[0]:fix_size[1]]
              qy = qy[fix_size[4]:fix_size[5]]
              qz = qz[fix_size[2]:fix_size[3]]
  \<close>
\<close>

definition do_nothing ::
  "'a ndarray \<Rightarrow> 'a ndarray \<Rightarrow> int list \<Rightarrow> rat list list \<Rightarrow> rat list \<Rightarrow> rat list \<Rightarrow> rat list
     \<Rightarrow> int list \<Rightarrow> error + 'a branch_result" where
  "do_nothing data mask_arr frames_logical q_values qx qy qz fix_size =
     (let pad_width = replicate 6 0
      in if length fix_size = 3
         then
           let nbz = int (shape data ! 0); nby = int (shape data ! 1); nbx = int (shape data ! 2)
           in bindE (py_getitem fix_size 1) (\<lambda>f1.
              bindE (py_getitem fix_size 0) (\<lambda>f0.
              bindE (py_getitem fix_size 3) (\<lambda>f3.
              bindE (py_getitem fix_size 2) (\<lambda>f2.
              bindE (py_getitem fix_size 5) (\<lambda>f5.
              bindE (py_getitem fix_size 4) (\<lambda>f4.
                let z_pan = f1 - f0; y_pan = f3 - f2; x_pan = f5 - f4
                in if z_pan > nbz \<or> y_pan > nby \<or> x_pan > nbx \<or> f1 > nbz \<or> f3 > nby \<or> f5 > nbx
                   then Inl (ValueError ''Predefined fix_size uncorrect'')
                   else
                     let sz = Slice (Some f0) (Some f1); sy = Slice (Some f2) (Some f3);
                         sx = Slice (Some f4) (Some f5);
                         data' = getslice3 data sz sy sx;
                         mask_arr' = getslice3 mask_arr sz sy sx;
                         frames' = crop_frames frames_logical f0 f1 nbz
                     in if length q_values \<noteq> 0
                        then Inr (data', mask_arr', pad_width, frames',
                                  getslice qx sz, getslice qy sx, getslice qz sy)
                        else Inr (data', mask_arr', pad_width, frames', qx, qy, qz)))))))
         else Inr (data, mask_arr, pad_width, frames_logical, qx, qy, qz))"

text \<open>The \<^verbatim>\<open>if\<close>/\<^verbatim>\<open>elif\<close> chain over \<^verbatim>\<open>fft_option\<close>.\<close>

definition apply_policy ::
  "string \<Rightarrow> 'a::{zero,one} ndarray \<Rightarrow> 'a ndarray \<Rightarrow> int list \<Rightarrow> rat list list \<Rightarrow> rat list
     \<Rightarrow> rat list \<Rightarrow> rat list \<Rightarrow> int \<Rightarrow> int \<Rightarrow> int \<Rightarrow> int \<Rightarrow> int \<Rightarrow> int \<Rightarrow> int \<Rightarrow> int \<Rightarrow> int
     \<Rightarrow> int list \<Rightarrow> int list \<Rightarrow> (error + 'a branch_result) option" where
  "apply_policy fft_option data mask_arr frames_logical q_values qx qy qz iz0 iy0 ix0
       nbz nby nbx max_nz max_ny max_nx pad_size fix_size =
     (if fft_option = ''crop_symmetric_ZYX''
      then Some (crop_symmetric_ZYX data mask_arr frames_logical q_values qx qy qz
                   iz0 iy0 ix0 nbz max_nz max_ny max_nx)
      else if fft_option = ''crop_asymmetric_ZYX''
      then Some (crop_asymmetric_ZYX data mask_arr frames_logical q_values qx qy qz nbz nby nbx)
      else if fft_option = ''pad_symmetric_Z_crop_YX''
      then pad_symmetric_Z_crop_YX data mask_arr frames_logical q_values qx qy qz
             iz0 iy0 ix0 nbz max_ny max_nx pad_size
      else if fft_option = ''pad_asymmetric_Z_crop_YX''
      then pad_asymmetric_Z_crop_YX data mask_arr frames_logical q_values qx qy qz
             iy0 ix0 nbz max_ny max_nx
      else if fft_option = ''pad_symmetric_Z''
      then pad_symmetric_Z data mask_arr frames_logical q_values qx qy qz iz0 nbz pad_size
      else if fft_option = ''pad_asymmetric_Z''
      then pad_asymmetric_Z data mask_arr frames_logical q_values qx qy qz nbz
      else if fft_option = ''pad_symmetric_ZYX''
      then pad_symmetric_ZYX data mask_arr frames_logical q_values qx qy qz
             iz0 iy0 ix0 nbz nby nbx pad_size
      else if fft_option = ''pad_asymmetric_ZYX''
      then pad_asymmetric_ZYX data mask_arr frames_logical q_values qx qy qz nbz nby nbx pad_size
      else if fft_option = ''do_nothing''
      then Some (do_nothing data mask_arr frames_logical q_values qx qy qz fix_size)
      else Some (Inl (ValueError ''Incorrect value for fft_option'')))"

subsection \<open>\<^verbatim>\<open>center_fft\<close>\<close>

text \<open>
  The keyword arguments: the four that the function knows, and the names of any others
  (the first of which raises \<^verbatim>\<open>Exception\<close>).  A keyword that is not given is \<open>None\<close> and
  becomes \<^verbatim>\<open>[]\<close>; \<^verbatim>\<open>q_values\<close> with fewer than three elements raises an \<^verbatim>\<open>IndexError\<close> that the
  function catches, and becomes \<^verbatim>\<open>[]\<close> too.
\<close>

record kwargs =
  kw_fix_bragg :: "int list option"
  kw_fix_size :: "int list option"
  kw_pad_size :: "int list option"
  kw_q_values :: "rat list list option"
  kw_unknown :: "string list"

text \<open>What \<^verbatim>\<open>center_fft\<close> returns: \<^verbatim>\<open>data, mask, pad_width, q_values, frames_logical\<close>.\<close>

type_synonym 'a fft_result =
  "'a ndarray \<times> 'a ndarray \<times> int list \<times> rat list list \<times> int list"

text \<open>
  \<^verbatim>\<open>
  if data.ndim != 3 or mask.ndim != 3:
      raise ValueError('data and mask should be 3D arrays')
  if data.shape != mask.shape:
      raise ValueError('Data and mask must have the same shape ...')
  ... the keyword arguments, the peak ...
  nbz, nby, nbx = np.shape(data)
  max_nz = abs(2 * min(iz0, nbz - iz0))
  max_ny = 2 * min(iy0, nby - iy0)
  max_nx = abs(2 * min(ix0, nbx - ix0))
  if max_nz == 0 or max_ny == 0 or max_nx == 0:
      print('Images with no intensity!')
      fft_option = 'do_nothing'
  ... the policy ...
  if len(q_values) != 0:
      q_values[0] = qx
      q_values[1] = qz
      q_values[2] = qy
  return data, mask, pad_width, q_values, frames_logical
  \<close>
  The \<^verbatim>\<open>or\<close> of the first test is two tests in a row with the same \<^verbatim>\<open>raise\<close>.
\<close>

definition center_fft ::
  "('a ndarray \<Rightarrow> pyfloat \<times> pyfloat \<times> pyfloat) \<Rightarrow> 'a::linordered_idom ndarray \<Rightarrow> 'a ndarray
     \<Rightarrow> int list \<Rightarrow> string \<Rightarrow> string \<Rightarrow> kwargs \<Rightarrow> (error + 'a fft_result) option" where
  "center_fft center_of_mass data mask_arr frames_logical centering fft_option kw =
     (if length (shape data) \<noteq> 3
      then Some (Inl (ValueError ''data and mask should be 3D arrays''))
      else if length (shape mask_arr) \<noteq> 3
      then Some (Inl (ValueError ''data and mask should be 3D arrays''))
      else if shape data \<noteq> shape mask_arr
      then Some (Inl (ValueError ''Data and mask must have the same shape''))
      else if kw_unknown kw \<noteq> []
      then Some (Inl (Exception ''unknown keyword argument given''))
      else
        let fix_bragg = (case kw_fix_bragg kw of None \<Rightarrow> [] | Some v \<Rightarrow> v);
            fix_size = (case kw_fix_size kw of None \<Rightarrow> [] | Some v \<Rightarrow> v);
            pad_size = (case kw_pad_size kw of None \<Rightarrow> [] | Some v \<Rightarrow> v);
            q_values = (case kw_q_values kw of
                          None \<Rightarrow> []
                        | Some v \<Rightarrow> if length v < 3 then [] else v);
            qx = (if q_values = [] then [] else q_values ! 0);
            qz = (if q_values = [] then [] else q_values ! 1);
            qy = (if q_values = [] then [] else q_values ! 2)
        in bindO (Some (locate_peak center_of_mass data centering fix_bragg)) (\<lambda>(iz0, iy0, ix0).
             let nbz = int (shape data ! 0); nby = int (shape data ! 1); nbx = int (shape data ! 2);
                 max_nz = \<bar>2 * min iz0 (nbz - iz0)\<bar>;
                 max_ny = 2 * min iy0 (nby - iy0);
                 max_nx = \<bar>2 * min ix0 (nbx - ix0)\<bar>;
                 fft_option = (if max_nz = 0 \<or> max_ny = 0 \<or> max_nx = 0 then ''do_nothing''
                               else fft_option)
             in bindO (apply_policy fft_option data mask_arr frames_logical q_values qx qy qz
                         iz0 iy0 ix0 nbz nby nbx max_nz max_ny max_nx pad_size fix_size)
                  (\<lambda>(data', mask_arr', pad_width, frames', qx', qy', qz').
                     Some (Inr (data', mask_arr', pad_width,
                                (if length q_values \<noteq> 0 then q_values[0 := qx', 1 := qz', 2 := qy']
                                 else q_values),
                                frames')))))"

subsection \<open>Reading a result, and example inputs\<close>

text \<open>
  The shapes of the returned data and mask with the returned \<^verbatim>\<open>pad_width\<close>, \<^verbatim>\<open>q_values\<close> and
  \<^verbatim>\<open>frames_logical\<close>: what an evaluation of \<^verbatim>\<open>center_fft\<close> on a concrete input shows.
\<close>

definition summary ::
  "(error + 'a fft_result) option
     \<Rightarrow> (error + nat list \<times> nat list \<times> int list \<times> rat list list \<times> int list) option" where
  "summary r = map_option (map_sum id (\<lambda>(d, m, pw, q, f). (shape d, shape m, pw, q, f))) r"

text \<open>
  An integer volume that is 0 but for one voxel of intensity 1, an empty mask of the same
  shape, the call without keyword arguments, and a \<^verbatim>\<open>center_of_mass\<close> for the calls that
  centre on the maximum and never use it.
\<close>

definition peak_volume :: "nat list \<Rightarrow> nat list \<Rightarrow> int ndarray" where
  "peak_volume sh peak = \<lparr>shape = sh, getitem = (\<lambda>idx. if idx = peak then 1 else 0)\<rparr>"

definition empty_mask :: "nat list \<Rightarrow> int ndarray" where
  "empty_mask sh = \<lparr>shape = sh, getitem = (\<lambda>idx. 0)\<rparr>"

definition no_kwargs :: kwargs where
  "no_kwargs = \<lparr>kw_fix_bragg = None, kw_fix_size = None, kw_pad_size = None,
                kw_q_values = None, kw_unknown = []\<rparr>"

definition unused_com :: "int ndarray \<Rightarrow> pyfloat \<times> pyfloat \<times> pyfloat" where
  "unused_com a = (NaN, NaN, NaN)"



section \<open>\<^verbatim>\<open>normalize_dataset\<close>: monitor normalization\<close>

text \<open>
  \<^verbatim>\<open>raw_monitor.min()\<close> and \<^verbatim>\<open>raw_monitor.max()\<close>; numpy raises \<^verbatim>\<open>ValueError\<close> for an empty
  array.  Monitor values are exact rationals here.
\<close>

definition np_min :: "rat list \<Rightarrow> error + rat" where
  "np_min xs = (if xs = [] then Inl (ValueError ''zero-size array to reduction operation'')
                else Inr (Min (set xs)))"

definition np_max :: "rat list \<Rightarrow> error + rat" where
  "np_max xs = (if xs = [] then Inl (ValueError ''zero-size array to reduction operation'')
                else Inr (Max (set xs)))"

text \<open>
  \<^verbatim>\<open>
  for idx in range(len(frames_logical)):
      if frames_logical[idx] == -1:  # padded frame, no monitor value for this
          if norm_to_min:
              monitor[idx - nb_overlap] = raw_monitor.min()
          else:  # norm to max
              monitor[idx - nb_overlap] = raw_monitor.max()
          nb_padded = nb_padded + 1
      elif frames_logical[idx] == 1:
          monitor[idx - nb_overlap] = raw_monitor[idx-nb_padded]
      else:
          nb_overlap = nb_overlap + 1
  \<close>
  The loop runs over the flags that are left, with the loop index and the three variables
  it updates as arguments.
\<close>

fun monitor_loop ::
  "int list \<Rightarrow> int \<Rightarrow> rat list \<Rightarrow> bool \<Rightarrow> rat list \<Rightarrow> int \<Rightarrow> int \<Rightarrow> error + rat list \<times> int" where
  "monitor_loop [] idx raw_monitor norm_to_min monitor nb_overlap nb_padded =
     Inr (monitor, nb_padded)"
| "monitor_loop (f # fs) idx raw_monitor norm_to_min monitor nb_overlap nb_padded =
     (if f = - 1
      then (case (if norm_to_min then np_min raw_monitor else np_max raw_monitor) of
              Inl e \<Rightarrow> Inl e
            | Inr v \<Rightarrow>
               (case py_setitem monitor (idx - nb_overlap) v of
                  Inl e \<Rightarrow> Inl e
                | Inr monitor' \<Rightarrow>
                    monitor_loop fs (idx + 1) raw_monitor norm_to_min monitor' nb_overlap
                      (nb_padded + 1)))
      else if f = 1
      then (case py_getitem raw_monitor (idx - nb_padded) of
              Inl e \<Rightarrow> Inl e
            | Inr v \<Rightarrow>
               (case py_setitem monitor (idx - nb_overlap) v of
                  Inl e \<Rightarrow> Inl e
                | Inr monitor' \<Rightarrow>
                    monitor_loop fs (idx + 1) raw_monitor norm_to_min monitor' nb_overlap nb_padded))
      else monitor_loop fs (idx + 1) raw_monitor norm_to_min monitor (nb_overlap + 1) nb_padded)"

text \<open>
  \<^verbatim>\<open>
  if ndim != 3:
      raise ValueError('Array should be 3D')
  monitor = np.zeros((frames_logical != 0).sum())
  ... the loop above ...
  if norm_to_min:
      monitor = monitor.min() / monitor
      title = 'monitor.min() / monitor'
  else:  # norm to max
      monitor = monitor / monitor.max()
      title = 'monitor / monitor.max()'
  nbz = array.shape[0]
  if len(monitor) != nbz:
      raise ValueError('The frame number and the monitor data length are different: ...')
  for idx in range(nbz):
      array[idx, :, :] = array[idx, :, :] * monitor[idx]
  return array, monitor, title
  \<close>
  The floating-point division of two monitor values and the product of an array element
  with a quotient are numpy's; they are the parameters \<open>true_divide\<close> and \<open>multiply\<close>, and
  \<open>'f\<close> is the type of a quotient.  The plots of the \<^verbatim>\<open>debugging\<close> flag and the \<^verbatim>\<open>print\<close> are
  left out.
\<close>

definition normalize_dataset ::
  "(rat \<Rightarrow> rat \<Rightarrow> 'f) \<Rightarrow> ('a \<Rightarrow> 'f \<Rightarrow> 'a) \<Rightarrow> 'a ndarray \<Rightarrow> rat list \<Rightarrow> int list \<Rightarrow> bool
     \<Rightarrow> error + 'a ndarray \<times> 'f list \<times> string" where
  "normalize_dataset true_divide multiply array raw_monitor frames_logical norm_to_min =
     (if length (shape array) \<noteq> 3 then Inl (ValueError ''Array should be 3D'')
      else
        let monitor = replicate (length (filter (\<lambda>f. f \<noteq> 0) frames_logical)) 0
        in case monitor_loop frames_logical 0 raw_monitor norm_to_min monitor 0 0 of
             Inl e \<Rightarrow> Inl e
           | Inr (monitor, nb_padded) \<Rightarrow>
              (case (if norm_to_min
                     then (case np_min monitor of
                             Inl e \<Rightarrow> Inl e
                           | Inr m \<Rightarrow> Inr (map (\<lambda>x. true_divide m x) monitor, ''monitor.min() / monitor''))
                     else (case np_max monitor of
                             Inl e \<Rightarrow> Inl e
                           | Inr m \<Rightarrow> Inr (map (\<lambda>x. true_divide x m) monitor, ''monitor / monitor.max()''))) of
                 Inl e \<Rightarrow> Inl e
               | Inr (monitor, title) \<Rightarrow>
                   let nbz = shape array ! 0
                   in if length monitor \<noteq> nbz
                      then Inl (ValueError ''The frame number and the monitor data length are different'')
                      else Inr (array\<lparr>getitem := (\<lambda>idx.
                                  multiply (getitem array idx) (monitor ! (idx ! 0)))\<rparr>,
                                monitor, title)))"

subsection \<open>The aligned monitor, as the specification describes it\<close>

text \<open>
  The specification's words: a monitor vector aligned to the kept and the padded frames
  only (unused frames excluded), with \<^verbatim>\<open>rawMonitor.min()\<close> (or \<^verbatim>\<open>.max()\<close>) as the synthetic
  value of a padded frame.  A padded frame has no raw monitor value of its own; a used or
  unused frame is the next measured frame, at position \<open>pos\<close> of the raw monitor.
\<close>

fun aligned_monitor :: "int list \<Rightarrow> nat \<Rightarrow> rat list \<Rightarrow> rat \<Rightarrow> rat list" where
  "aligned_monitor [] pos raw_monitor synthetic = []"
| "aligned_monitor (f # fs) pos raw_monitor synthetic =
     (if f = - 1 then synthetic # aligned_monitor fs pos raw_monitor synthetic
      else if f = 1 then raw_monitor ! pos # aligned_monitor fs (pos + 1) raw_monitor synthetic
      else aligned_monitor fs (pos + 1) raw_monitor synthetic)"

definition synthetic_value :: "rat list \<Rightarrow> bool \<Rightarrow> rat" where
  "synthetic_value raw_monitor norm_to_min =
     (if norm_to_min then Min (set raw_monitor) else Max (set raw_monitor))"

definition used_count :: "int list \<Rightarrow> nat" where
  "used_count frames_logical = length (filter (\<lambda>f. f = 1) frames_logical)"

section \<open>Correctness of the trial division\<close>

lemma is_prime_iff: "is_prime p \<longleftrightarrow> 1 < p \<and> (\<forall>d. 2 \<le> d \<and> d < p \<longrightarrow> \<not> d dvd p)"
  by (auto simp: is_prime_def list_all_iff)

lemma primes_inner_spec:
  assumes "1 < i" "0 < n" "no_divisor_below i n"
  shows "\<exists>k n'. primes_inner i n lp = (n', lp @ replicate k i) \<and> n = n' * i ^ k \<and> 0 < n'
           \<and> \<not> i dvd n' \<and> (0 < k \<longrightarrow> is_prime i)"
  using assms
proof (induction i n lp rule: primes_inner.induct)
  case (1 i number list_primes)
  show ?case
  proof (cases "number mod i = 0")
    case True
    have guard: "1 < i \<and> 0 < number \<and> number mod i = 0" using 1 True by simp
    have pos: "0 < number div i" using guard by (simp add: div_pos_of_dvd)
    have eq: "number = number div i * i" using True by auto
    have nd: "no_divisor_below i (number div i)"
      unfolding no_divisor_below_def
    proof (intro allI impI notI)
      fix d assume d: "2 \<le> d \<and> d < i" and dv: "d dvd number div i"
      have "d dvd number" using dv eq by (metis dvd_mult2)
      then show False using "1.prems"(3) d by (simp add: no_divisor_below_def)
    qed
    from "1.IH"[OF guard "1.prems"(1) pos nd]
    obtain k n' where k:
      "primes_inner i (number div i) (list_primes @ [i]) = (n', (list_primes @ [i]) @ replicate k i)"
      "number div i = n' * i ^ k" "0 < n'" "\<not> i dvd n'" by blast
    have pi: "is_prime i"
      unfolding is_prime_iff
    proof (intro conjI allI impI notI)
      show "1 < i" by (rule "1.prems"(1))
    next
      fix d assume d: "2 \<le> d \<and> d < i" and dv: "d dvd i"
      have "i dvd number" using True by auto
      then have "d dvd number" using dv by (rule dvd_trans[rotated])
      then show False using "1.prems"(3) d by (simp add: no_divisor_below_def)
    qed
    have "primes_inner i number list_primes = (n', list_primes @ replicate (Suc k) i)"
      using guard k(1) by (subst primes_inner.simps) (simp add: replicate_app_Cons_same)
    moreover have "number = n' * i ^ Suc k"
      using eq k(2) by (simp add: mult.assoc power_commutes)
    ultimately show ?thesis using k(3,4) pi by blast
  next
    case False
    then have "primes_inner i number list_primes = (number, list_primes @ replicate 0 i)"
      by (subst primes_inner.simps) simp
    moreover have "\<not> i dvd number" using False by (simp add: dvd_eq_mod_eq_0)
    ultimately show ?thesis
      using "1.prems"(2) by (intro exI[of _ 0] exI[of _ number]) simp
  qed
qed

lemma no_small_divisor_prime:
  assumes "1 < n" "n < i * i" "1 < i" "no_divisor_below i n"
  shows "is_prime n \<and> i \<le> n"
proof
  show "i \<le> n"
  proof (rule ccontr)
    assume "\<not> i \<le> n"
    then have "2 \<le> n \<and> n < i" using assms(1) by simp
    then show False using assms(4) by (auto simp: no_divisor_below_def)
  qed
  show "is_prime n"
    unfolding is_prime_iff
  proof (intro conjI allI impI notI)
    show "1 < n" by (rule assms(1))
  next
    fix d assume d: "2 \<le> d \<and> d < n" and dv: "d dvd n"
    then obtain e where e: "n = d * e" by (auto simp: dvd_def)
    have d2: "2 \<le> d" "d < n" using d by auto
    have epos: "0 < e" using e assms(1) d2 by (simp add: zero_less_mult_iff)
    have e2: "2 \<le> e"
    proof (rule ccontr)
      assume "\<not> 2 \<le> e"
      then have "e = 1" using epos by simp
      then show False using e d2 by simp
    qed
    have "\<not> d dvd n \<or> i \<le> d" using assms(4) d2 by (auto simp: no_divisor_below_def)
    then have id: "i \<le> d" using dv by simp
    have "e dvd n" using e by simp
    moreover have "\<not> e dvd n \<or> i \<le> e"
      using assms(4) e2 by (auto simp: no_divisor_below_def)
    ultimately have ie: "i \<le> e" by simp
    have "i * i \<le> d * e" using id ie assms(3) by (intro mult_mono) auto
    then show False using e assms(2) by simp
  qed
qed

lemma primes_outer_spec:
  assumes "1 < i" "0 < n" "no_divisor_below i n"
  shows "\<exists>qs. primes_outer i n lp = lp @ qs \<and> sorted qs
            \<and> (\<forall>q \<in> set qs. is_prime q \<and> i \<le> q) \<and> prod_list qs = n"
  using assms
proof (induction i n lp rule: primes_outer.induct)
  case (1 i number list_primes)
  show ?case
  proof (cases "i * i \<le> number")
    case True
    from primes_inner_spec[OF "1.prems", of list_primes]
    obtain k n' where k: "primes_inner i number list_primes = (n', list_primes @ replicate k i)"
      "number = n' * i ^ k" "0 < n'" "\<not> i dvd n'" "0 < k \<longrightarrow> is_prime i" by blast
    have nd: "no_divisor_below (i + 1) n'"
      unfolding no_divisor_below_def
    proof (intro allI impI notI)
      fix d assume d: "2 \<le> d \<and> d < i + 1" and dv: "d dvd n'"
      show False
      proof (cases "d = i")
        case True
        then show ?thesis using dv k(4) by simp
      next
        case False
        then have "2 \<le> d \<and> d < i" using d by simp
        moreover have "d dvd number" using dv k(2) by simp
        ultimately show ?thesis using "1.prems"(3) by (simp add: no_divisor_below_def)
      qed
    qed
    have i1: "1 < i + 1" using "1.prems"(1) by simp
    from "1.IH"[OF True k(1)[symmetric] i1 k(3) nd]
    obtain qs where qs:
      "primes_outer (i + 1) n' (list_primes @ replicate k i) = (list_primes @ replicate k i) @ qs"
      "sorted qs" "\<forall>q \<in> set qs. is_prime q \<and> i + 1 \<le> q" "prod_list qs = n'" by blast
    have "primes_outer i number list_primes = list_primes @ (replicate k i @ qs)"
      using True k(1) qs(1) by (subst primes_outer.simps) simp
    moreover have "sorted (replicate k i @ qs)"
      using qs(2,3) by (auto simp: sorted_append sorted_replicate)
    moreover have "\<forall>q \<in> set (replicate k i @ qs). is_prime q \<and> i \<le> q"
      using qs(3) k(5) by auto
    moreover have "prod_list (replicate k i @ qs) = number"
      using qs(4) k(2) by (simp add: prod_list_replicate mult.commute)
    ultimately show ?thesis by blast
  next
    case False
    show ?thesis
    proof (cases "number > 1")
      case True
      have "primes_outer i number list_primes = list_primes @ [number]"
        using False True by (subst primes_outer.simps) simp
      moreover have "is_prime number \<and> i \<le> number"
        using no_small_divisor_prime[OF True _ "1.prems"(1,3)] False by simp
      ultimately show ?thesis by (intro exI[of _ "[number]"]) simp
    next
      case n1: False
      then have "number = 1" using "1.prems"(2) by simp
      moreover have "primes_outer i number list_primes = list_primes @ []"
        using False n1 by (subst primes_outer.simps) simp
      ultimately show ?thesis by (intro exI[of _ "[]"]) simp
    qed
  qed
qed

lemma primes_decomposition:
  assumes "0 < n"
  shows "\<exists>ps. primes n = Inr (1 # ps) \<and> sorted ps \<and> (\<forall>p \<in> set ps. is_prime p)
           \<and> prod_list ps = n"
proof -
  have "no_divisor_below 2 n" by (auto simp: no_divisor_below_def)
  from primes_outer_spec[OF _ assms this, of "[1]"]
  obtain qs where "primes_outer 2 n [1] = [1] @ qs" "sorted qs"
    "\<forall>q \<in> set qs. is_prime q \<and> 2 \<le> q" "prod_list qs = n" by auto
  then show ?thesis using assms by (intro exI[of _ qs]) (simp add: primes_def)
qed

lemmas primes_eval = primes_def primes_outer.simps primes_inner.simps

text \<open>
  Claim C7, as the spec states it: \<^verbatim>\<open>primes(28) == [2, 2, 7]\<close>.  The list that the code
  builds starts with \<^verbatim>\<open>list_primes = [1]\<close>, so the result is \<open>[1, 2, 2, 7]\<close>.
\<close>

theorem primes_28_is_not_2_2_7: "primes 28 \<noteq> Inr [2, 2, 7]"
  by (simp add: primes_eval)

text \<open>
  Claim C7, amended: for every positive \<open>n\<close>, \<^verbatim>\<open>primes(n)\<close> returns the number 1 followed
  by the prime factors of \<open>n\<close> in ascending order with multiplicity (their product is \<open>n\<close>);
  so \<^verbatim>\<open>primes(28) == [1, 2, 2, 7]\<close>.  The two examples of \<^verbatim>\<open>try_smaller_primes\<close> hold
  as stated: 28 passes with largest prime 7 and fails with largest prime 5, the required
  divider being 2.
\<close>

theorem primes_is_one_then_decomposition:
  "(0 < n \<longrightarrow>
      (\<exists>ps. primes n = Inr (1 # ps) \<and> sorted ps \<and> list_all is_prime ps \<and> prod_list ps = n))
   \<and> primes 28 = Inr [1, 2, 2, 7]
   \<and> try_smaller_primes 28 7 (Some [2]) = Inr True
   \<and> try_smaller_primes 28 5 (Some [2]) = Inr False"
proof (intro conjI impI)
  assume "0 < n"
  from primes_decomposition[OF this] show
    "\<exists>ps. primes n = Inr (1 # ps) \<and> sorted ps \<and> list_all is_prime ps \<and> prod_list ps = n"
    by (auto simp: list_all_iff)
next
  show "primes 28 = Inr [1, 2, 2, 7]" by (simp add: primes_eval)
next
  show "try_smaller_primes 28 7 (Some [2]) = Inr True"
    by (simp add: try_smaller_primes_def primes_eval)
next
  show "try_smaller_primes 28 5 (Some [2]) = Inr False"
    by (simp add: try_smaller_primes_def primes_eval)
qed

theorem primes_is_one_then_decomposition_witness:
  "(0::int) < 28
   \<and> (\<exists>ps. primes 28 = Inr (1 # ps) \<and> sorted ps \<and> list_all is_prime ps \<and> prod_list ps = 28)
   \<and> primes 28 = Inr [1, 2, 2, 7]"
proof -
  have "(0::int) < 28" by simp
  with primes_is_one_then_decomposition[of 28] show ?thesis by blast
qed

section \<open>The nearest admissible sizes\<close>

lemma try_smaller_primes_pos: "try_smaller_primes k mp rd = Inr b \<Longrightarrow> 0 < k"
  by (auto simp: try_smaller_primes_def primes_def split: if_splits)

































section \<open>Properties of \<^verbatim>\<open>zero_pad\<close>\<close>















section \<open>Properties of \<^verbatim>\<open>normalize_dataset\<close>\<close>

lemma py_setitem_Inr:
  "py_setitem xs i v = Inr ys \<Longrightarrow> 0 \<le> i \<Longrightarrow> nat i < length xs \<and> ys = xs[nat i := v]"
  by (auto simp: py_setitem_def Let_def split: if_splits)

lemma py_getitem_Inr:
  "py_getitem xs i = Inr v \<Longrightarrow> 0 \<le> i \<Longrightarrow> nat i < length xs \<and> v = xs ! nat i"
  by (auto simp: py_getitem_def Let_def split: if_splits)

lemma take_Suc_update: "k < length xs \<Longrightarrow> take (Suc k) (xs[k := v]) = take k xs @ [v]"
  by (simp add: take_Suc_conv_app_nth)

lemma synthetic_value_eq:
  "(if ntm then np_min raw else np_max raw) = Inr v \<Longrightarrow> v = synthetic_value raw ntm"
  by (auto simp: np_min_def np_max_def synthetic_value_def split: if_splits)

lemma monitor_loop_aligned:
  assumes "monitor_loop fs idx raw ntm mon nbo nbp = Inr (mon', nbp')" "nbo \<le> idx" "nbp \<le> idx"
  shows "mon' = take (nat (idx - nbo)) mon
                @ aligned_monitor fs (nat (idx - nbp)) raw (synthetic_value raw ntm)
                @ drop (nat (idx - nbo)
                        + length (aligned_monitor fs (nat (idx - nbp)) raw (synthetic_value raw ntm))) mon"
  using assms
proof (induction fs arbitrary: idx mon nbo nbp)
  case Nil
  then show ?case by simp
next
  case (Cons f fs)
  define k where "k = nat (idx - nbo)"
  define pos where "pos = nat (idx - nbp)"
  define syn where "syn = synthetic_value raw ntm"
  have k0: "0 \<le> idx - nbo" and p0: "0 \<le> idx - nbp" using Cons.prems(2,3) by auto
  consider (padded) "f = - 1" | (used) "f = 1" | (other) "f \<noteq> - 1" "f \<noteq> 1" by blast
  then show ?case
  proof cases
    case padded
    from Cons.prems(1) padded obtain v mon1 where
      v: "(if ntm then np_min raw else np_max raw) = Inr v"
      and s: "py_setitem mon (idx - nbo) v = Inr mon1"
      and r: "monitor_loop fs (idx + 1) raw ntm mon1 nbo (nbp + 1) = Inr (mon', nbp')"
      by (auto split: sum.splits)
    have vs: "v = syn" using synthetic_value_eq[OF v] by (simp add: syn_def)
    from py_setitem_Inr[OF s k0] have kl: "k < length mon" and m1: "mon1 = mon[k := v]"
      by (auto simp: k_def)
    have e1: "nat (idx + 1 - nbo) = Suc k" using k0 by (simp add: k_def nat_add_distrib)
    have e2: "nat (idx + 1 - (nbp + 1)) = pos" by (simp add: pos_def)
    from Cons.IH[OF r] Cons.prems(2,3)
    have "mon' = take (Suc k) mon1 @ aligned_monitor fs pos raw syn
                 @ drop (Suc k + length (aligned_monitor fs pos raw syn)) mon1"
      by (simp add: e1 e2 syn_def pos_def k_def)
    then have "mon' = take k mon @ (syn # aligned_monitor fs pos raw syn)
                 @ drop (k + length (syn # aligned_monitor fs pos raw syn)) mon"
      using kl by (simp add: m1 vs take_Suc_update)
    then show ?thesis using padded by (simp add: k_def pos_def syn_def)
  next
    case used
    from Cons.prems(1) used obtain v mon1 where
      v: "py_getitem raw (idx - nbp) = Inr v"
      and s: "py_setitem mon (idx - nbo) v = Inr mon1"
      and r: "monitor_loop fs (idx + 1) raw ntm mon1 nbo nbp = Inr (mon', nbp')"
      by (auto split: sum.splits)
    from py_getitem_Inr[OF v p0] have vs: "v = raw ! pos" by (simp add: pos_def)
    from py_setitem_Inr[OF s k0] have kl: "k < length mon" and m1: "mon1 = mon[k := v]"
      by (auto simp: k_def)
    have e1: "nat (idx + 1 - nbo) = Suc k" using k0 by (simp add: k_def nat_add_distrib)
    have e2: "nat (idx + 1 - nbp) = Suc pos" using p0 by (simp add: pos_def nat_add_distrib)
    from Cons.IH[OF r] Cons.prems(2,3)
    have "mon' = take (Suc k) mon1 @ aligned_monitor fs (Suc pos) raw syn
                 @ drop (Suc k + length (aligned_monitor fs (Suc pos) raw syn)) mon1"
      by (simp add: e1 e2 syn_def pos_def k_def)
    then have "mon' = take k mon @ (raw ! pos # aligned_monitor fs (Suc pos) raw syn)
                 @ drop (k + length (raw ! pos # aligned_monitor fs (Suc pos) raw syn)) mon"
      using kl by (simp add: m1 vs take_Suc_update)
    then show ?thesis using used by (simp add: k_def pos_def syn_def)
  next
    case other
    from Cons.prems(1) other
    have r: "monitor_loop fs (idx + 1) raw ntm mon (nbo + 1) nbp = Inr (mon', nbp')" by simp
    have e1: "nat (idx + 1 - (nbo + 1)) = k" by (simp add: k_def)
    have e2: "nat (idx + 1 - nbp) = Suc pos" using p0 by (simp add: pos_def nat_add_distrib)
    from Cons.IH[OF r] Cons.prems(2,3)
    have "mon' = take k mon @ aligned_monitor fs (Suc pos) raw syn
                 @ drop (k + length (aligned_monitor fs (Suc pos) raw syn)) mon"
      by (simp add: e1 e2 syn_def pos_def k_def)
    then show ?thesis using other by (simp add: k_def pos_def syn_def)
  qed
qed

lemma length_aligned_monitor:
  "length (aligned_monitor fs pos raw syn) = length (filter (\<lambda>f. f = - 1 \<or> f = 1) fs)"
  by (induction fs arbitrary: pos) auto

lemma filter_flags:
  "list_all (\<lambda>f. f = - 1 \<or> f = 0 \<or> f = 1) fs \<Longrightarrow>
     filter (\<lambda>f. f \<noteq> 0) fs = filter (\<lambda>f. f = - 1 \<or> f = (1::int)) fs"
  by (induction fs) auto

lemma monitor_loop_short:
  assumes "raw \<noteq> []" "nbp \<le> idx" "0 < used_count fs"
    "int (length raw) < (idx - nbp) + int (used_count fs)"
  shows "monitor_loop fs idx raw ntm mon nbo nbp = Inl IndexError"
  using assms(2,3,4)
proof (induction fs arbitrary: idx mon nbo nbp)
  case Nil
  then show ?case by (simp add: used_count_def)
next
  case (Cons f fs)
  have mn: "(if ntm then np_min raw else np_max raw) = Inr (synthetic_value raw ntm)"
    using assms(1) by (simp add: np_min_def np_max_def synthetic_value_def)
  have set_err: "\<And>i v. (case py_setitem mon i v of Inl e \<Rightarrow> Inl e | Inr m \<Rightarrow> Inl IndexError)
                    = (Inl IndexError :: error + rat list \<times> int)"
    by (auto simp: py_setitem_def Let_def)
  consider (padded) "f = - 1" | (used) "f = 1" | (other) "f \<noteq> - 1" "f \<noteq> 1" by blast
  then show ?case
  proof cases
    case padded
    have uc: "used_count (f # fs) = used_count fs" using padded by (simp add: used_count_def)
    have "\<And>mon1. monitor_loop fs (idx + 1) raw ntm mon1 nbo (nbp + 1) = Inl IndexError"
      using Cons.IH[of "nbp + 1" "idx + 1"] Cons.prems uc by simp
    then show ?thesis using padded mn
      by (auto simp: py_setitem_def Let_def split: sum.splits)
  next
    case used
    have uc: "used_count (f # fs) = Suc (used_count fs)" using used by (simp add: used_count_def)
    show ?thesis
    proof (cases "py_getitem raw (idx - nbp)")
      case (Inl e)
      then have "e = IndexError" by (auto simp: py_getitem_def Let_def split: if_splits)
      then show ?thesis using used Inl by simp
    next
      case (Inr v)
      have "0 \<le> idx - nbp" using Cons.prems(1) by simp
      from py_getitem_Inr[OF Inr this] have "idx - nbp < int (length raw)" by auto
      then have "0 < used_count fs" "int (length raw) < (idx + 1 - nbp) + int (used_count fs)"
        using Cons.prems(3) uc by auto
      then have "\<And>mon1. monitor_loop fs (idx + 1) raw ntm mon1 nbo nbp = Inl IndexError"
        using Cons.IH[of nbp "idx + 1"] Cons.prems(1) by simp
      then show ?thesis using used Inr
        by (auto simp: py_setitem_def Let_def split: sum.splits)
    qed
  next
    case other
    have uc: "used_count (f # fs) = used_count fs" using other by (simp add: used_count_def)
    have "monitor_loop fs (idx + 1) raw ntm mon (nbo + 1) nbp = Inl IndexError"
      using Cons.IH[of nbp "idx + 1"] Cons.prems uc by simp
    then show ?thesis using other by simp
  qed
qed

lemma monitor_loop_empty_raw:
  assumes "0 < used_count fs"
  shows "monitor_loop fs idx [] ntm mon nbo nbp = Inl IndexError
       \<or> monitor_loop fs idx [] ntm mon nbo nbp
            = Inl (ValueError ''zero-size array to reduction operation'')"
  using assms
proof (induction fs arbitrary: idx mon nbo nbp)
  case Nil
  then show ?case by (simp add: used_count_def)
next
  case (Cons f fs)
  consider (padded) "f = - 1" | (used) "f = 1" | (other) "f \<noteq> - 1" "f \<noteq> 1" by blast
  then show ?case
  proof cases
    case padded
    then show ?thesis by (simp add: np_min_def np_max_def)
  next
    case used
    then show ?thesis by (simp add: py_getitem_def)
  next
    case other
    then have "0 < used_count fs" using Cons.prems by (simp add: used_count_def)
    from Cons.IH[OF this] other show ?thesis by simp
  qed
qed


lemma normalize_dataset_Inr:
  assumes "normalize_dataset td mul array raw frames ntm = Inr (array', monitor, title)"
  shows "length monitor = shape array ! 0"
    and "list_all (\<lambda>f. f = - 1 \<or> f = 0 \<or> f = 1) frames \<Longrightarrow>
         monitor = (let aligned = aligned_monitor frames 0 raw (synthetic_value raw ntm)
                    in if ntm then map (\<lambda>x. td (Min (set aligned)) x) aligned
                       else map (\<lambda>x. td x (Max (set aligned))) aligned)"
proof -
  define mon0 :: "rat list" where "mon0 = replicate (length (filter (\<lambda>f. f \<noteq> 0) frames)) 0"
  from assms obtain mon nbp where
    loop: "monitor_loop frames 0 raw ntm mon0 0 0 = Inr (mon, nbp)"
    and norm: "(if ntm
                then (case np_min mon of Inl e \<Rightarrow> Inl e
                      | Inr m \<Rightarrow> Inr (map (\<lambda>x. td m x) mon, ''monitor.min() / monitor''))
                else (case np_max mon of Inl e \<Rightarrow> Inl e
                      | Inr m \<Rightarrow> Inr (map (\<lambda>x. td x m) mon, ''monitor / monitor.max()'')))
               = Inr (monitor, title)"
    and len: "length monitor = shape array ! 0"
    by (auto simp: normalize_dataset_def Let_def mon0_def split: if_splits sum.splits prod.splits)
  show "length monitor = shape array ! 0" by (rule len)
  assume wf: "list_all (\<lambda>f. f = - 1 \<or> f = 0 \<or> f = 1) frames"
  define aligned where "aligned = aligned_monitor frames 0 raw (synthetic_value raw ntm)"
  have "length aligned = length mon0"
    using filter_flags[OF wf] by (simp add: aligned_def mon0_def length_aligned_monitor)
  moreover from monitor_loop_aligned[OF loop]
  have "mon = aligned @ drop (length aligned) mon0" by (simp add: aligned_def)
  ultimately have mon: "mon = aligned" by simp
  have "monitor = (if ntm then map (\<lambda>x. td (Min (set aligned)) x) aligned
                   else map (\<lambda>x. td x (Max (set aligned))) aligned)"
    using norm unfolding mon
    by (auto simp: np_min_def np_max_def split: if_splits)
  then show "monitor = (let aligned = aligned_monitor frames 0 raw (synthetic_value raw ntm)
                    in if ntm then map (\<lambda>x. td (Min (set aligned)) x) aligned
                       else map (\<lambda>x. td x (Max (set aligned))) aligned)"
    by (simp add: aligned_def Let_def)
qed

lemma normalize_dataset_short:
  assumes "length (shape array) = 3" "length raw < used_count frames"
  shows "normalize_dataset td mul array raw frames ntm = Inl IndexError
       \<or> raw = [] \<and> normalize_dataset td mul array raw frames ntm
                      = Inl (ValueError ''zero-size array to reduction operation'')"
proof -
  define mon0 :: "rat list" where "mon0 = replicate (length (filter (\<lambda>f. f \<noteq> 0) frames)) 0"
  have nd: "\<And>e. monitor_loop frames 0 raw ntm mon0 0 0 = Inl e \<Longrightarrow>
              normalize_dataset td mul array raw frames ntm = Inl e"
    using assms(1) by (simp add: normalize_dataset_def Let_def mon0_def)
  have pos: "0 < used_count frames" using assms(2) by simp
  show ?thesis
  proof (cases "raw = []")
    case True
    from monitor_loop_empty_raw[OF pos, of 0 ntm mon0 0 0] True nd
    show ?thesis by auto
  next
    case False
    have "int (length raw) < (0 - 0) + int (used_count frames)" using assms(2) by auto
    from monitor_loop_short[OF False _ pos this, of ntm mon0 0] nd
    show ?thesis by simp
  qed
qed

text \<open>
  Claim C9, as the spec states it: a raw monitor shorter than the number of used frames
  raises the length-mismatch error.  The only length check of the function compares the
  aligned monitor with the number of frames of the array, after the loop; with two used
  frames and one monitor value the loop itself fails at \<^verbatim>\<open>raw_monitor[idx-nb_padded]\<close> with
  an \<^verbatim>\<open>IndexError\<close>.
\<close>

theorem normalize_dataset_short_monitor_raises_IndexError:
  "normalize_dataset (\<lambda>a b. a / b) (\<lambda>x y. x * y)
     \<lparr>shape = [2, 1, 1], getitem = (\<lambda>idx. 4 :: rat)\<rparr> [5] [1, 1] True = Inl IndexError"
  by (simp add: normalize_dataset_def py_getitem_def py_setitem_def)

text \<open>
  Claim C9, amended: when \<^verbatim>\<open>normalize_dataset\<close> returns, the monitor it returns has as many
  entries as the array has frames, and (the flags being -1, 0 or 1) it is the normalisation
  \<^verbatim>\<open>monitor.min() / monitor\<close> (or \<^verbatim>\<open>monitor / monitor.max()\<close>) of the vector aligned to the
  used and padded frames only, with \<^verbatim>\<open>raw_monitor.min()\<close> (or \<^verbatim>\<open>.max()\<close>) for a padded frame.
  Given a raw monitor shorter than the number of used frames it raises an \<^verbatim>\<open>IndexError\<close>
  from the monitor lookup (for an empty raw monitor possibly numpy's \<^verbatim>\<open>ValueError\<close> for the
  minimum of an empty array), not the length-mismatch \<^verbatim>\<open>ValueError\<close>.
\<close>

theorem normalize_dataset_monitor:
  "(normalize_dataset true_divide multiply array raw_monitor frames_logical norm_to_min
      = Inr (array', monitor, title) \<longrightarrow>
        length monitor = shape array ! 0
      \<and> (list_all (\<lambda>f. f = - 1 \<or> f = 0 \<or> f = 1) frames_logical \<longrightarrow>
           monitor = (let aligned = aligned_monitor frames_logical 0 raw_monitor
                                      (synthetic_value raw_monitor norm_to_min)
                      in if norm_to_min then map (\<lambda>x. true_divide (Min (set aligned)) x) aligned
                         else map (\<lambda>x. true_divide x (Max (set aligned))) aligned)))
   \<and> (length (shape array2) = 3 \<and> length raw_monitor2 < used_count frames_logical2 \<longrightarrow>
        normalize_dataset true_divide multiply array2 raw_monitor2 frames_logical2 norm_to_min2
          = Inl IndexError
      \<or> raw_monitor2 = []
        \<and> normalize_dataset true_divide multiply array2 raw_monitor2 frames_logical2 norm_to_min2
            = Inl (ValueError ''zero-size array to reduction operation''))"
  using normalize_dataset_Inr[of true_divide multiply array raw_monitor frames_logical norm_to_min
          array' monitor title]
        normalize_dataset_short[of array2 raw_monitor2 frames_logical2 true_divide multiply norm_to_min2]
  by blast

text \<open>A stack of \<open>nbz\<close> frames of one pixel, every intensity 4.\<close>

definition example_stack :: "nat \<Rightarrow> rat ndarray" where
  "example_stack nbz = \<lparr>shape = [nbz, 1, 1], getitem = (\<lambda>idx. 4)\<rparr>"

theorem normalize_dataset_monitor_witness:
  "(\<exists>array' title.
      normalize_dataset (\<lambda>a b. a / b) (\<lambda>x y. x * y) (example_stack 3) [5, 7, 10] [- 1, 0, 1, 1] True
        = Inr (array', [1, 5 / 7, 1 / 2], title))
   \<and> length [1, 5 / 7, 1 / 2 :: rat] = shape (example_stack 3) ! 0
   \<and> list_all (\<lambda>f. f = - 1 \<or> f = 0 \<or> f = 1) [- 1, 0, 1, 1 :: int]
   \<and> aligned_monitor [- 1, 0, 1, 1] 0 [5, 7, 10] (synthetic_value [5, 7, 10] True) = [5, 7, 10]
   \<and> length (shape (example_stack 2)) = 3 \<and> length [5 :: rat] < used_count [1, 1]
   \<and> normalize_dataset (\<lambda>a b. a / b) (\<lambda>x y. x * y) (example_stack 2) [5] [1, 1] True = Inl IndexError"
proof -
  have r: "normalize_dataset (\<lambda>a b. a / b) (\<lambda>x y. x * y) (example_stack 3) [5, 7, 10] [- 1, 0, 1, 1] True
        = Inr ((example_stack 3)\<lparr>getitem := (\<lambda>idx. getitem (example_stack 3) idx * ([1, 5 / 7, 1 / 2] ! (idx ! 0)))\<rparr>,
               [1, 5 / 7, 1 / 2], ''monitor.min() / monitor'')"
    by (simp add: normalize_dataset_def py_getitem_def py_setitem_def np_min_def example_stack_def)
  have h: "length (shape (example_stack 2)) = 3 \<and> length [5 :: rat] < used_count [1, 1]"
    by (simp add: example_stack_def used_count_def)
  have w: "list_all (\<lambda>f. f = - 1 \<or> f = 0 \<or> f = 1) [- 1, 0, 1, 1 :: int]" by simp
  have a: "aligned_monitor [- 1, 0, 1, 1] 0 [5, 7, 10] (synthetic_value [5, 7, 10] True) = [5, 7, 10]"
    by (simp add: synthetic_value_def)
  from normalize_dataset_monitor[of "\<lambda>a b. a / b" "\<lambda>x y. x * y" "example_stack 3" "[5, 7, 10]"
      "[- 1, 0, 1, 1]" True _ "[1, 5 / 7, 1 / 2]" "''monitor.min() / monitor''" "example_stack 2"
      "[5]" "[1, 1]" True] r h
  have "length [1, 5 / 7, 1 / 2 :: rat] = shape (example_stack 3) ! 0"
    and "normalize_dataset (\<lambda>a b. a / b) (\<lambda>x y. x * y) (example_stack 2) [5] [1, 1] True = Inl IndexError"
    by auto
  then show ?thesis using r h w a by blast
qed

section \<open>Properties of \<^verbatim>\<open>center_fft\<close>\<close>

subsection \<open>The length of the frame flags\<close>





























subsection \<open>The centering parameter and the peak override\<close>

lemma indices_empty_iff: "indices sh = [] \<longleftrightarrow> 0 \<in> set sh"
proof (induction sh)
  case Nil
  show ?case by simp
next
  case (Cons n ns)
  show ?case
  proof (cases "n = 0")
    case True
    then show ?thesis by simp
  next
    case False
    have "indices (n # ns) = [] \<longleftrightarrow> indices ns = []"
      using False by (auto simp: concat_eq_Nil_conv)
    then show ?thesis using Cons.IH False by auto
  qed
qed

lemma center_fft_bad_centering:
  assumes "centering \<noteq> ''max''" "centering \<noteq> ''com''"
  shows "\<exists>e. center_fft com data mask_arr frames_logical centering fft_option kw = Some (Inl e)"
    and "length (shape data) = 3 \<Longrightarrow> shape mask_arr = shape data \<Longrightarrow> kw_unknown kw = [] \<Longrightarrow>
         center_fft com data mask_arr frames_logical centering fft_option kw
           = Some (Inl (ValueError ''Incorrect value for centering parameter''))"
  using assms
  by (auto simp: center_fft_def locate_peak_def bindE_def bindO_def Let_def)

lemma locate_peak_out_of_bounds:
  assumes "\<not> (index_ok (shape data ! 0) z \<and> index_ok (shape data ! 1) y \<and> index_ok (shape data ! 2) x)"
  shows "\<exists>e. locate_peak com data centering [z, y, x] = Inl e"
    and "centering = ''com'' \<or> centering = ''max'' \<and> 0 \<notin> set (shape data) \<Longrightarrow>
         locate_peak com data centering [z, y, x] = Inl IndexError"
proof -
  show "\<exists>e. locate_peak com data centering [z, y, x] = Inl e"
    using assms
    by (cases "argmax_abs data"; cases "com data")
       (auto simp: locate_peak_def bindE_def)
  assume c: "centering = ''com'' \<or> centering = ''max'' \<and> 0 \<notin> set (shape data)"
  then show "locate_peak com data centering [z, y, x] = Inl IndexError"
  proof
    assume "centering = ''com''"
    then show ?thesis using assms by (cases "com data") (auto simp: locate_peak_def bindE_def)
  next
    assume m: "centering = ''max'' \<and> 0 \<notin> set (shape data)"
    then have "indices (shape data) \<noteq> []" by (simp add: indices_empty_iff)
    then obtain p where "argmax_abs data = Inr p"
      by (cases "indices (shape data)") (auto simp: argmax_abs_def)
    then show ?thesis using assms m by (auto simp: locate_peak_def bindE_def)
  qed
qed

lemma center_fft_fix_bragg_out_of_bounds:
  assumes "kw_fix_bragg kw = Some [z, y, x]"
    "\<not> (index_ok (shape data ! 0) z \<and> index_ok (shape data ! 1) y \<and> index_ok (shape data ! 2) x)"
  shows "\<exists>e. center_fft com data mask_arr frames_logical centering fft_option kw = Some (Inl e)"
    and "length (shape data) = 3 \<Longrightarrow> shape mask_arr = shape data \<Longrightarrow> kw_unknown kw = [] \<Longrightarrow>
         centering = ''com'' \<or> centering = ''max'' \<and> 0 \<notin> set (shape data) \<Longrightarrow>
         center_fft com data mask_arr frames_logical centering fft_option kw = Some (Inl IndexError)"
proof -
  from locate_peak_out_of_bounds(1)[OF assms(2), of com centering]
  obtain e where e: "locate_peak com data centering [z, y, x] = Inl e" by blast
  show "\<exists>e. center_fft com data mask_arr frames_logical centering fft_option kw = Some (Inl e)"
    using e assms(1) by (auto simp: center_fft_def bindO_def Let_def)
  assume "length (shape data) = 3" "shape mask_arr = shape data" "kw_unknown kw = []"
    "centering = ''com'' \<or> centering = ''max'' \<and> 0 \<notin> set (shape data)"
  with locate_peak_out_of_bounds(2)[OF assms(2), of centering com] assms(1)
  show "center_fft com data mask_arr frames_logical centering fft_option kw = Some (Inl IndexError)"
    by (auto simp: center_fft_def bindO_def Let_def)
qed

text \<open>
  Claim C10: the \<^verbatim>\<open>centering\<close> parameter is checked before \<^verbatim>\<open>fix_bragg\<close> is looked at, so a
  value other than \<^verbatim>\<open>'max'\<close> and \<^verbatim>\<open>'com'\<close> raises whatever the other arguments are (the
  \<^verbatim>\<open>ValueError\<close> of the centering check once the shape and keyword checks are passed); and
  with a \<^verbatim>\<open>fix_bragg\<close> of three integers of which one is out of range for its axis the call
  raises as well (the \<^verbatim>\<open>IndexError\<close> of \<^verbatim>\<open>data[iz0, iy0, ix0]\<close> once the earlier checks are
  passed and the centering itself does not fail).
\<close>

theorem center_fft_centering_before_fix_bragg:
  "(centering \<noteq> ''max'' \<and> centering \<noteq> ''com'' \<longrightarrow>
       (\<exists>e. center_fft com data mask_arr frames_logical centering fft_option kw = Some (Inl e))
     \<and> (length (shape data) = 3 \<and> shape mask_arr = shape data \<and> kw_unknown kw = [] \<longrightarrow>
          center_fft com data mask_arr frames_logical centering fft_option kw
            = Some (Inl (ValueError ''Incorrect value for centering parameter''))))
   \<and> (kw_fix_bragg kw2 = Some [z, y, x]
        \<and> \<not> (index_ok (shape data2 ! 0) z \<and> index_ok (shape data2 ! 1) y
               \<and> index_ok (shape data2 ! 2) x) \<longrightarrow>
       (\<exists>e. center_fft com2 data2 mask_arr2 frames_logical2 centering2 fft_option2 kw2
               = Some (Inl e))
     \<and> (length (shape data2) = 3 \<and> shape mask_arr2 = shape data2 \<and> kw_unknown kw2 = []
          \<and> (centering2 = ''com'' \<or> centering2 = ''max'' \<and> 0 \<notin> set (shape data2)) \<longrightarrow>
          center_fft com2 data2 mask_arr2 frames_logical2 centering2 fft_option2 kw2
            = Some (Inl IndexError)))"
proof (intro conjI impI)
  assume a: "centering \<noteq> ''max'' \<and> centering \<noteq> ''com''"
  then show "\<exists>e. center_fft com data mask_arr frames_logical centering fft_option kw = Some (Inl e)"
    by (simp add: center_fft_bad_centering(1))
  assume "length (shape data) = 3 \<and> shape mask_arr = shape data \<and> kw_unknown kw = []"
  with a show "center_fft com data mask_arr frames_logical centering fft_option kw
            = Some (Inl (ValueError ''Incorrect value for centering parameter''))"
    by (simp add: center_fft_bad_centering(2))
next
  assume b: "kw_fix_bragg kw2 = Some [z, y, x]
        \<and> \<not> (index_ok (shape data2 ! 0) z \<and> index_ok (shape data2 ! 1) y
               \<and> index_ok (shape data2 ! 2) x)"
  then show "\<exists>e. center_fft com2 data2 mask_arr2 frames_logical2 centering2 fft_option2 kw2
               = Some (Inl e)"
    using center_fft_fix_bragg_out_of_bounds(1) by blast
  assume "length (shape data2) = 3 \<and> shape mask_arr2 = shape data2 \<and> kw_unknown kw2 = []
          \<and> (centering2 = ''com'' \<or> centering2 = ''max'' \<and> 0 \<notin> set (shape data2))"
  with b show "center_fft com2 data2 mask_arr2 frames_logical2 centering2 fft_option2 kw2
            = Some (Inl IndexError)"
    using center_fft_fix_bragg_out_of_bounds(2) by blast
qed

theorem center_fft_centering_before_fix_bragg_witness:
  "''other'' \<noteq> ''max'' \<and> ''other'' \<noteq> ''com''
   \<and> length (shape (peak_volume [9, 9, 8] [4, 4, 4])) = 3
   \<and> shape (empty_mask [9, 9, 8]) = shape (peak_volume [9, 9, 8] [4, 4, 4])
   \<and> kw_unknown (no_kwargs\<lparr>kw_fix_bragg := Some [4, 4, 4]\<rparr>) = []
   \<and> center_fft unused_com (peak_volume [9, 9, 8] [4, 4, 4]) (empty_mask [9, 9, 8])
        [1, 1, 1, 1, 1, 1, 1, 1, 1] ''other'' ''do_nothing'' (no_kwargs\<lparr>kw_fix_bragg := Some [4, 4, 4]\<rparr>)
       = Some (Inl (ValueError ''Incorrect value for centering parameter''))
   \<and> kw_fix_bragg (no_kwargs\<lparr>kw_fix_bragg := Some [9, 4, 4]\<rparr>) = Some [9, 4, 4]
   \<and> \<not> index_ok (shape (peak_volume [9, 9, 8] [4, 4, 4]) ! 0) 9
   \<and> 0 \<notin> set (shape (peak_volume [9, 9, 8] [4, 4, 4]))
   \<and> center_fft unused_com (peak_volume [9, 9, 8] [4, 4, 4]) (empty_mask [9, 9, 8])
        [1, 1, 1, 1, 1, 1, 1, 1, 1] ''max'' ''do_nothing'' (no_kwargs\<lparr>kw_fix_bragg := Some [9, 4, 4]\<rparr>)
       = Some (Inl IndexError)"
proof -
  have h1: "''other'' \<noteq> ''max'' \<and> ''other'' \<noteq> ''com''" by simp
  have h2: "length (shape (peak_volume [9, 9, 8] [4, 4, 4])) = 3
     \<and> shape (empty_mask [9, 9, 8]) = shape (peak_volume [9, 9, 8] [4, 4, 4])
     \<and> kw_unknown (no_kwargs\<lparr>kw_fix_bragg := Some [4, 4, 4]\<rparr>) = []
     \<and> kw_unknown (no_kwargs\<lparr>kw_fix_bragg := Some [9, 4, 4]\<rparr>) = []"
    by (simp add: peak_volume_def empty_mask_def no_kwargs_def)
  have h3: "kw_fix_bragg (no_kwargs\<lparr>kw_fix_bragg := Some [9, 4, 4]\<rparr>) = Some [9, 4, 4]" by simp
  have h4: "\<not> index_ok (shape (peak_volume [9, 9, 8] [4, 4, 4]) ! 0) 9"
    by (simp add: peak_volume_def index_ok_def)
  have h5: "0 \<notin> set (shape (peak_volume [9, 9, 8] [4, 4, 4]))" by (simp add: peak_volume_def)
  from center_fft_centering_before_fix_bragg[where centering = "''other''" and com = unused_com
      and data = "peak_volume [9, 9, 8] [4, 4, 4]" and mask_arr = "empty_mask [9, 9, 8]"
      and frames_logical = "[1, 1, 1, 1, 1, 1, 1, 1, 1]" and fft_option = "''do_nothing''"
      and kw = "no_kwargs\<lparr>kw_fix_bragg := Some [4, 4, 4]\<rparr>"
      and ?kw2.0 = "no_kwargs\<lparr>kw_fix_bragg := Some [9, 4, 4]\<rparr>" and z = 9 and y = 4 and x = 4
      and ?data2.0 = "peak_volume [9, 9, 8] [4, 4, 4]" and ?com2.0 = unused_com
      and ?mask_arr2.0 = "empty_mask [9, 9, 8]" and ?frames_logical2.0 = "[1, 1, 1, 1, 1, 1, 1, 1, 1]"
      and ?centering2.0 = "''max''" and ?fft_option2.0 = "''do_nothing''"]
    h1 h2 h3 h4 h5
  show ?thesis by blast
qed

subsection \<open>The padding policies on concrete volumes\<close>

text \<open>
  Claim C2 at a failing input: \<^verbatim>\<open>pad_symmetric_ZYX\<close> with \<^verbatim>\<open>pad_size = [8, 8, 8]\<close> on a volume of
  shape \<open>(10, 2, 2)\<close> with its peak at \<open>(5, 1, 1)\<close> and q axes of lengths 10, 2 and 2.  The
  negative pad widths of the rocking axis are set to 0, so the data keeps its 10 frames,
  while \<^verbatim>\<open>qx\<close> is rebuilt with \<^verbatim>\<open>np.arange(pad_size[0])\<close>: 8 samples for 10 frames.
\<close>

theorem pad_symmetric_ZYX_small_pad_size_q_mismatch:
  "summary (center_fft unused_com (peak_volume [10, 2, 2] [5, 1, 1]) (empty_mask [10, 2, 2])
              [1, 1, 1, 1, 1, 1, 1, 1, 1, 1] ''max'' ''pad_symmetric_ZYX''
              (no_kwargs\<lparr>kw_pad_size := Some [8, 8, 8],
                          kw_q_values := Some [[0, 1, 2, 3, 4, 5, 6, 7, 8, 9], [0, 1], [0, 1]]\<rparr>))
   = Some (Inr ([10, 8, 8], [10, 8, 8], [0, 0, 3, 3, 3, 3],
                [[0, 1, 2, 3, 4, 5, 6, 7], [0, 1, 2, 3, 4, 5, 6, 7], [- 3, - 2, - 1, 0, 1, 2, 3, 4]],
                [1, 1, 1, 1, 1, 1, 1, 1, 1, 1]))"
  by code_simp

text \<open>
  Claim C3 at a failing input: \<^verbatim>\<open>pad_symmetric_Z\<close> with \<^verbatim>\<open>pad_size = [16, 16, 16]\<close> on a volume
  of shape \<open>(10, 2, 2)\<close> with its peak at \<open>(9, 1, 1)\<close>.  The pad widths of the rocking axis are
  \<open>-1\<close> and \<open>6\<close>; the \<open>-1\<close> goes to \<^verbatim>\<open>zero_pad\<close> as it is, where the assignment of the 10
  frames to the slice \<^verbatim>\<open>[-1:9]\<close> of the new array raises.  \<^verbatim>\<open>pad_symmetric_ZYX\<close>, which has
  the line that removes negative numbers, returns on the same input with the widths 0 and 6.
\<close>

theorem pad_symmetric_Z_negative_pad_not_clamped:
  "[pad_low_sym 16 9 10, pad_high_sym 16 9 10] = [- 1, 6]
   \<and> summary (center_fft unused_com (peak_volume [10, 2, 2] [9, 1, 1]) (empty_mask [10, 2, 2])
              [1, 1, 1, 1, 1, 1, 1, 1, 1, 1] ''max'' ''pad_symmetric_Z''
              (no_kwargs\<lparr>kw_pad_size := Some [16, 16, 16]\<rparr>))
     = Some (Inl (ValueError ''could not broadcast input array''))
   \<and> summary (center_fft unused_com (peak_volume [10, 2, 2] [9, 1, 1]) (empty_mask [10, 2, 2])
              [1, 1, 1, 1, 1, 1, 1, 1, 1, 1] ''max'' ''pad_symmetric_ZYX''
              (no_kwargs\<lparr>kw_pad_size := Some [16, 16, 16]\<rparr>))
     = Some (Inr ([16, 16, 16], [16, 16, 16], [0, 6, 7, 7, 7, 7], [],
                  [1, 1, 1, 1, 1, 1, 1, 1, 1, 1, - 1, - 1, - 1, - 1, - 1, - 1]))"
  by code_simp

text \<open>
  Claim C4 at a failing input: \<^verbatim>\<open>pad_asymmetric_ZYX\<close> on a volume of shape \<open>(8, 9, 8)\<close>, for
  which the target sizes are 8, 10 and 8 and the claimed split of the middle axis is
  \<open>(1, 0)\<close>.  The low pad width of the middle axis reads \<^verbatim>\<open>pad_size[1]\<close>: without a
  \<^verbatim>\<open>pad_size\<close> the call raises \<^verbatim>\<open>IndexError\<close>, and with \<^verbatim>\<open>pad_size = [8, 11, 8]\<close> the middle axis
  is not padded at all.
\<close>

theorem pad_asymmetric_ZYX_reads_pad_size:
  "summary (center_fft unused_com (peak_volume [8, 9, 8] [4, 4, 4]) (empty_mask [8, 9, 8])
              [1, 1, 1, 1, 1, 1, 1, 1] ''max'' ''pad_asymmetric_ZYX'' no_kwargs)
     = Some (Inl IndexError)
   \<and> summary (center_fft unused_com (peak_volume [8, 9, 8] [4, 4, 4]) (empty_mask [8, 9, 8])
              [1, 1, 1, 1, 1, 1, 1, 1] ''max'' ''pad_asymmetric_ZYX''
              (no_kwargs\<lparr>kw_pad_size := Some [8, 11, 8]\<rparr>))
     = Some (Inr ([8, 9, 8], [8, 9, 8], [0, 0, 0, 0, 0, 0], [], [1, 1, 1, 1, 1, 1, 1, 1]))
   \<and> higher_primes (PyInt 9) 7 (Some [2]) = Some (Inr (PyInt 10))"
  by code_simp

end
